theory Spec2Isabelle
  imports Main "HOL-Library.Word" "HOL-Library.Signed_Division"
    "HOL-Library.Char_ord" "HOL-Library.List_Lexorder"
begin

section \<open>Data model of the bucket compactor\<close>

text \<open>
  A block identifier is a \<open>ulid.ULID\<close>, an array of 16 bytes compared byte-wise; the
  all-zero value \<open>ulid.ULID{}\<close> stands for an empty block. Times are \<open>int64\<close>
  milliseconds and are compared as signed numbers.
\<close>

type_synonym ulid = "128 word"
type_synonym int64 = "64 word"

definition zeroULID :: ulid where
  "zeroULID = 0"

text \<open>The fields of \<open>block.Meta\<close> that the compactor reads. \<open>Labels\<close> is a Go map; it is
  kept as the list of its entries in the order in which one iteration visits them, so
  that the keys of the list are distinct and the order is arbitrary.\<close>

record meta =
  ULID :: ulid
  MinTime :: int64
  MaxTime :: int64
  Labels :: "(string \<times> string) list"
  Resolution :: int64
  NumSamples :: nat

text \<open>A block directory of the job's work directory \<open>subDir/<ULID>\<close>: the parsed
  \<open>meta.json\<close> when the file is there and readable, and whether the \<open>tombstones\<close> file
  exists.\<close>

record block_dir =
  meta_json :: "meta option"
  tombstones :: bool

type_synonym local_fs = "ulid \<rightharpoonup> block_dir"

datatype error =
    External string
  | ContextCanceled
  | Wrap error string
  | WrapBlock error string ulid
  | InvalidMinTime ulid int64 int64
  | InvalidMaxTime ulid int64 int64
  | TimeRangeNotContained int64 int64
  | PanicRecovered string

text \<open>\<open>block.ReadMetaFromDir(filepath.Join(subDir, id.String()))\<close>.\<close>

definition ReadMetaFromDir :: "local_fs \<Rightarrow> ulid \<Rightarrow> error + meta" where
  "ReadMetaFromDir fs bid =
     (case fs bid of
        None \<Rightarrow> Inl (External ''open meta.json: no such file or directory'')
      | Some d \<Rightarrow>
          (case meta_json d of
             None \<Rightarrow> Inl (External ''read meta.json'')
           | Some m \<Rightarrow> Inr m))"

section \<open>hasNonZeroULIDs and convertCompactionResultToForEachJobs\<close>

fun hasNonZeroULIDs :: "ulid list \<Rightarrow> bool" where
  "hasNonZeroULIDs [] = False"
| "hasNonZeroULIDs (bid # ids) = (if bid \<noteq> zeroULID then True else hasNonZeroULIDs ids)"

record ulidWithShardIndex =
  ulid_of :: ulid
  shardIndex :: nat

fun convertFrom :: "nat \<Rightarrow> ulid list \<Rightarrow> ulidWithShardIndex list" where
  "convertFrom ix [] = []"
| "convertFrom ix (bid # ids) =
     (if bid = zeroULID then convertFrom (Suc ix) ids
      else \<lparr>ulid_of = bid, shardIndex = ix\<rparr> # convertFrom (Suc ix) ids)"

definition convertCompactionResultToForEachJobs :: "ulid list \<Rightarrow> ulidWithShardIndex list" where
  "convertCompactionResultToForEachJobs compactedBlocks = convertFrom 0 compactedBlocks"

section \<open>verifyCompactedBlocksTimeRanges\<close>

text \<open>The loop over \<open>compIDs\<close>, carrying the two flags \<open>sourceBlocksMinTimeFound\<close> and
  \<open>sourceBlocksMaxTimeFound\<close>; an early \<open>return\<close> of an error is \<open>Inl\<close>.\<close>

fun verifyLoop ::
  "local_fs \<Rightarrow> int64 \<Rightarrow> int64 \<Rightarrow> ulid list \<Rightarrow> bool \<Rightarrow> bool \<Rightarrow> error + (bool \<times> bool)" where
  "verifyLoop fs smin smax [] minFound maxFound = Inr (minFound, maxFound)"
| "verifyLoop fs smin smax (compID # rest) minFound maxFound =
     (if compID = zeroULID then verifyLoop fs smin smax rest minFound maxFound
      else
        (case ReadMetaFromDir fs compID of
           Inl err \<Rightarrow> Inl (WrapBlock err
             ''failed to read meta.json from %s during block time range verification'' compID)
         | Inr m \<Rightarrow>
             if MinTime m <s smin then Inl (InvalidMinTime compID (MinTime m) smin)
             else if smax <s MaxTime m then Inl (InvalidMaxTime compID (MaxTime m) smax)
             else verifyLoop fs smin smax rest
                    (if MinTime m = smin then True else minFound)
                    (if MaxTime m = smax then True else maxFound)))"

definition verifyCompactedBlocksTimeRanges ::
  "local_fs \<Rightarrow> ulid list \<Rightarrow> int64 \<Rightarrow> int64 \<Rightarrow> error option" where
  "verifyCompactedBlocksTimeRanges fs compIDs sourceBlocksMinTime sourceBlocksMaxTime =
     (case verifyLoop fs sourceBlocksMinTime sourceBlocksMaxTime compIDs False False of
        Inl err \<Rightarrow> Some err
      | Inr (minFound, maxFound) \<Rightarrow>
          if \<not> minFound \<or> \<not> maxFound
          then Some (TimeRangeNotContained sourceBlocksMinTime sourceBlocksMaxTime)
          else None)"

text \<open>What the verification looks at, over the non-empty output blocks: whether the
  \<open>meta.json\<close> of a block can be read, whether its times lie outside the source bounds,
  and whether a source bound is the \<open>MinTime\<close> or \<open>MaxTime\<close> of some block.\<close>

definition readable :: "local_fs \<Rightarrow> ulid \<Rightarrow> bool" where
  "readable fs bid = (case ReadMetaFromDir fs bid of Inl _ \<Rightarrow> False | Inr _ \<Rightarrow> True)"

definition metaOf :: "local_fs \<Rightarrow> ulid \<Rightarrow> meta" where
  "metaOf fs bid = (case ReadMetaFromDir fs bid of Inr m \<Rightarrow> m)"

definition violatesBounds :: "local_fs \<Rightarrow> int64 \<Rightarrow> int64 \<Rightarrow> ulid \<Rightarrow> bool" where
  "violatesBounds fs smin smax bid =
     (readable fs bid \<and> (MinTime (metaOf fs bid) <s smin \<or> smax <s MaxTime (metaOf fs bid)))"

definition nonEmpty :: "ulid list \<Rightarrow> ulid list" where
  "nonEmpty compIDs = filter (\<lambda>bid. bid \<noteq> zeroULID) compIDs"

definition minAttained :: "local_fs \<Rightarrow> int64 \<Rightarrow> ulid list \<Rightarrow> bool" where
  "minAttained fs smin compIDs =
     list_ex (\<lambda>bid. readable fs bid \<and> MinTime (metaOf fs bid) = smin) (nonEmpty compIDs)"

definition maxAttained :: "local_fs \<Rightarrow> int64 \<Rightarrow> ulid list \<Rightarrow> bool" where
  "maxAttained fs smax compIDs =
     list_ex (\<lambda>bid. readable fs bid \<and> MaxTime (metaOf fs bid) = smax) (nonEmpty compIDs)"

definition anyViolation :: "local_fs \<Rightarrow> int64 \<Rightarrow> int64 \<Rightarrow> ulid list \<Rightarrow> bool" where
  "anyViolation fs smin smax compIDs = list_ex (violatesBounds fs smin smax) (nonEmpty compIDs)"

definition anyUnreadable :: "local_fs \<Rightarrow> ulid list \<Rightarrow> bool" where
  "anyUnreadable fs compIDs = list_ex (\<lambda>bid. \<not> readable fs bid) (nonEmpty compIDs)"


section \<open>Contexts, the bucket and the job's work directory\<close>

text \<open>A \<open>context.Context\<close> as the compactor builds it: the background context, the
  context the caller passed in, or a context derived from another one with a timeout
  (in nanoseconds). \<open>ctxDone\<close> says whether the context is done once the caller's
  context is cancelled or not (\<open>callerCancelled\<close>) and \<open>elapsed\<close> nanoseconds have
  passed since the context was made.\<close>

datatype go_context = Background | CallerCtx | WithTimeout go_context nat

fun ctxDone :: "go_context \<Rightarrow> bool \<Rightarrow> nat \<Rightarrow> bool" where
  "ctxDone Background callerCancelled elapsed = False"
| "ctxDone CallerCtx callerCancelled elapsed = callerCancelled"
| "ctxDone (WithTimeout parent d) callerCancelled elapsed =
     (ctxDone parent callerCancelled elapsed \<or> d \<le> elapsed)"

definition Minute :: nat where
  "Minute = 60 * 1000000000"

datatype level = LevelInfo | LevelWarn | LevelError

text \<open>Every call that leaves the compactor is recorded in the order it is made.\<close>

datatype event =
    EvLog level string
  | EvMkdirAll
  | EvPlan
  | EvDownload ulid
  | EvNewBucket
  | EvOpen ulid
  | EvCompactWithSplitting nat
  | EvRemoveTombstones ulid
  | EvValidateLocalBlock ulid
  | EvUpload ulid
  | EvRemoveAll ulid
  | EvMarkForDeletion go_context ulid string
  | EvRemoveSubDir

text \<open>The state a job works on: the deletion markers and the uploaded blocks of the
  bucket, the block directories below \<open>subDir\<close>, two counters, and the calls made so
  far.\<close>

record world =
  deletionMarks :: "ulid set"
  uploaded :: "ulid set"
  localDirs :: local_fs
  blocksMarkedForDeletion :: nat
  compactionBlocksVerificationFailed :: nat
  trace :: "event list"

text \<open>What the collaborators answer: the planner, the bucket, the file system and the
  block compaction are outside the compactor core, and each field says whether (and
  how) the call fails.\<close>

record env =
  markFails :: "go_context \<Rightarrow> ulid \<Rightarrow> error option"
  mkdirAll :: "error option"
  plan :: "meta list \<Rightarrow> error + meta list"
  download :: "ulid \<Rightarrow> error + block_dir"
  newBucket :: "error option"
  openBlock :: "ulid \<Rightarrow> error option"
  compact :: "meta list \<Rightarrow> nat \<Rightarrow> error + (meta list \<times> local_fs)"
  validate :: "ulid \<Rightarrow> error option"
  upload :: "ulid \<Rightarrow> error option"
  removeAll :: "ulid \<Rightarrow> error option"
  removeFile :: "ulid \<Rightarrow> error option"
  removeSubDir :: "error option"

definition emit :: "event \<Rightarrow> world \<Rightarrow> world" where
  "emit e w = w\<lparr>trace := trace w @ [e]\<rparr>"

text \<open>Modelled from the spec: \<open>block.MarkForDeletion\<close> is not among the sources. The
  spec has a deletion marker as a presence object of the bucket that is authoritative
  once written, and the comment in \<open>GarbageCollect\<close> says that the call copes with a
  block that is marked already. The call either fails, leaving the bucket as it was, or
  leaves the marker in the bucket; the counter counts the markers written.\<close>

definition MarkForDeletion ::
  "env \<Rightarrow> go_context \<Rightarrow> ulid \<Rightarrow> string \<Rightarrow> world \<Rightarrow> error option \<times> world" where
  "MarkForDeletion en ctx bid details w =
     (let w1 = emit (EvMarkForDeletion ctx bid details) w in
      case markFails en ctx bid of
        Some err \<Rightarrow> (Some err, w1)
      | None \<Rightarrow>
          (None, w1\<lparr>deletionMarks := insert bid (deletionMarks w1),
                     blocksMarkedForDeletion :=
                       (if bid \<in> deletionMarks w1 then blocksMarkedForDeletion w1
                        else blocksMarkedForDeletion w1 + 1)\<rparr>))"

definition deleteBlock :: "env \<Rightarrow> ulid \<Rightarrow> world \<Rightarrow> error option \<times> world" where
  "deleteBlock en bid w =
     (let w1 = emit (EvRemoveAll bid) w in
      case removeAll en bid of
        Some err \<Rightarrow> (Some (WrapBlock err ''remove old block dir %s'' bid), w1)
      | None \<Rightarrow>
          (let w2 = w1\<lparr>localDirs := (localDirs w1)(bid := None)\<rparr>;
               delCtx = WithTimeout Background (5 * Minute);
               w3 = emit (EvLog LevelInfo ''marking compacted block for deletion'') w2
           in case MarkForDeletion en delCtx bid ''source of compacted block'' w3 of
                (Some err, w4) \<Rightarrow>
                  (Some (WrapBlock err ''mark block %s for deletion from bucket'' bid), w4)
              | (None, w4) \<Rightarrow> (None, w4)))"

section \<open>Syncer.GarbageCollect\<close>

record syncer =
  blocks :: "ulid \<rightharpoonup> meta"
  garbageCollections :: nat
  garbageCollectionFailures :: nat
  garbageCollectionDuration :: nat

text \<open>The loop over \<open>duplicateIDs\<close>. \<open>ctxErr i\<close> says whether \<open>ctx.Err()\<close> is non-nil
  when the loop asks for the \<open>i\<close>-th time from here on. The last equation's first line is
  the code after the loop.\<close>

fun gcLoop ::
  "env \<Rightarrow> (nat \<Rightarrow> bool) \<Rightarrow> ulid list \<Rightarrow> syncer \<Rightarrow> world \<Rightarrow> error option \<times> syncer \<times> world" where
  "gcLoop en ctxErr [] s w =
     (None, s\<lparr>garbageCollections := garbageCollections s + 1,
               garbageCollectionDuration := garbageCollectionDuration s + 1\<rparr>, w)"
| "gcLoop en ctxErr (bid # rest) s w =
     (if ctxErr 0 then (Some ContextCanceled, s, w)
      else
        (let delCtx = WithTimeout Background (5 * Minute);
             w1 = emit (EvLog LevelInfo ''marking outdated block for deletion'') w
         in case MarkForDeletion en delCtx bid ''outdated block'' w1 of
              (Some err, w2) \<Rightarrow>
                (Some (WrapBlock err ''mark block %s for deletion'' bid),
                 s\<lparr>garbageCollectionFailures := garbageCollectionFailures s + 1\<rparr>, w2)
            | (None, w2) \<Rightarrow>
                gcLoop en (\<lambda>i. ctxErr (Suc i)) rest (s\<lparr>blocks := (blocks s)(bid := None)\<rparr>) w2))"

text \<open>\<open>duplicateIDs\<close> is what \<open>s.deduplicateBlocksFilter.DuplicateIDs()\<close> returns.\<close>

definition GarbageCollect ::
  "env \<Rightarrow> (nat \<Rightarrow> bool) \<Rightarrow> ulid list \<Rightarrow> syncer \<Rightarrow> world \<Rightarrow> error option \<times> syncer \<times> world" where
  "GarbageCollect en ctxErr duplicateIDs s w = gcLoop en ctxErr duplicateIDs s w"


section \<open>minTime and maxTime\<close>

text \<open>A \<open>time.Time\<close> as seconds since the Unix epoch and nanoseconds within the second.
  \<open>time.Unix\<close> and \<open>UnixMilli\<close> follow the standard library; Go's \<open>/\<close> truncates, which
  is \<open>sdiv\<close>. The zero \<open>time.Time{}\<close> is January 1 of year 1.\<close>

record Time =
  unixSec :: int
  nsec :: int

definition zeroTime :: Time where
  "zeroTime = \<lparr>unixSec = - 62135596800, nsec = 0\<rparr>"

definition time_Unix :: "int \<Rightarrow> int \<Rightarrow> Time" where
  "time_Unix sec ns =
     (if ns < 0 \<or> ns \<ge> 1000000000 then
        (let n = ns sdiv 1000000000;
             sec1 = sec + n;
             ns1 = ns - n * 1000000000
         in if ns1 < 0 then \<lparr>unixSec = sec1 - 1, nsec = ns1 + 1000000000\<rparr>
            else \<lparr>unixSec = sec1, nsec = ns1\<rparr>)
      else \<lparr>unixSec = sec, nsec = ns\<rparr>)"

definition UnixMilli :: "Time \<Rightarrow> int64" where
  "UnixMilli t = word_of_int (unixSec t * 1000 + nsec t sdiv 1000000)"

text \<open>\<open>time.Millisecond\<close> is the \<open>Duration\<close> 1000000; the product is an \<open>int64\<close> and wraps.\<close>

definition Millisecond :: int64 where
  "Millisecond = 1000000"

fun minLoop :: "meta list \<Rightarrow> int64 \<Rightarrow> int64" where
  "minLoop [] minT = minT"
| "minLoop (m # metas) minT = minLoop metas (if MinTime m <s minT then MinTime m else minT)"

fun maxLoop :: "meta list \<Rightarrow> int64 \<Rightarrow> int64" where
  "maxLoop [] maxT = maxT"
| "maxLoop (m # metas) maxT = maxLoop metas (if maxT <s MaxTime m then MaxTime m else maxT)"

definition minTime :: "meta list \<Rightarrow> Time" where
  "minTime metas =
     (case metas of
        [] \<Rightarrow> zeroTime
      | m0 # _ \<Rightarrow> time_Unix 0 (sint (minLoop metas (MinTime m0) * Millisecond)))"

definition maxTime :: "meta list \<Rightarrow> Time" where
  "maxTime metas =
     (case metas of
        [] \<Rightarrow> zeroTime
      | m0 # _ \<Rightarrow> time_Unix 0 (sint (maxLoop metas (MaxTime m0) * Millisecond)))"

section \<open>concurrency.ForEachJob\<close>

text \<open>\<open>ForEachJob\<close> starts \<open>min(concurrency, jobs)\<close> workers; each takes the next index
  while the context of the group is not done, runs the function and returns its first
  error. The model is the run of one worker, which takes the indexes in order; with no
  job or no worker the call returns nil at once. \<open>ctxErr idx\<close> says whether the context
  is done when the worker looks before taking index \<open>idx\<close>.\<close>

function forEachWorker ::
  "(nat \<Rightarrow> bool) \<Rightarrow> nat \<Rightarrow> (nat \<Rightarrow> 'w \<Rightarrow> error option \<times> 'w) \<Rightarrow> nat \<Rightarrow> 'w \<Rightarrow> error option \<times> 'w" where
  "forEachWorker ctxErr jobs jobFunc idx w =
     (if ctxErr idx then (Some ContextCanceled, w)
      else if idx \<ge> jobs then (None, w)
      else
        (case jobFunc idx w of
           (Some err, w1) \<Rightarrow> (Some err, w1)
         | (None, w1) \<Rightarrow> forEachWorker ctxErr jobs jobFunc (Suc idx) w1))"
  by pat_completeness auto
termination
  by (relation "measure (\<lambda>(ctxErr, jobs, jobFunc, idx, w). jobs - idx)") auto

definition ForEachJob ::
  "(nat \<Rightarrow> bool) \<Rightarrow> nat \<Rightarrow> nat \<Rightarrow> (nat \<Rightarrow> 'w \<Rightarrow> error option \<times> 'w) \<Rightarrow> 'w \<Rightarrow> error option \<times> 'w" where
  "ForEachJob ctxErr jobs concurrency jobFunc w =
     (if jobs = 0 then (None, w)
      else if min concurrency jobs = 0 then (None, w)
      else forEachWorker ctxErr jobs jobFunc 0 w)"

section \<open>runCompactionJob\<close>

record Job =
  Key :: string
  metasByMinTime :: "meta list"
  UseSplitting :: bool
  SplittingShards :: nat

record BucketCompactor =
  compactDir :: string
  blockSyncConcurrency :: nat
  blockOpenConcurrency :: nat

text \<open>The three calls of \<open>ForEachJob\<close> in a job each watch the job's context.\<close>

datatype stage = Downloading | Opening | Uploading

type_synonym job_ctx = "stage \<Rightarrow> nat \<Rightarrow> bool"

text \<open>The results \<open>(shouldRerun, compIDs, rerr)\<close>; a nil slice is the empty list.\<close>

type_synonym job_result = "bool \<times> ulid list \<times> error option"

definition downloadJob :: "env \<Rightarrow> meta list \<Rightarrow> nat \<Rightarrow> world \<Rightarrow> error option \<times> world" where
  "downloadJob en toCompact idx w =
     (let m = toCompact ! idx;
          w1 = emit (EvDownload (ULID m)) w
      in case download en (ULID m) of
           Inl err \<Rightarrow> (Some (WrapBlock err ''download block %s'' (ULID m)), w1)
         | Inr d \<Rightarrow> (None, w1\<lparr>localDirs := (localDirs w1)(ULID m \<mapsto> d)\<rparr>))"

definition openJob :: "env \<Rightarrow> meta list \<Rightarrow> nat \<Rightarrow> world \<Rightarrow> error option \<times> world" where
  "openJob en toCompact idx w =
     (let m = toCompact ! idx;
          w1 = emit (EvOpen (ULID m)) w
      in case openBlock en (ULID m) of
           Some err \<Rightarrow> (Some (WrapBlock err ''open block %s'' (ULID m)), w1)
         | None \<Rightarrow> (None, w1))"

text \<open>\<open>os.Remove(filepath.Join(bdir, "tombstones"))\<close>: an error when there is no such
  file, or when the file system refuses to remove the file (\<open>removeFile\<close>).\<close>

definition removeTombstones :: "env \<Rightarrow> ulid \<Rightarrow> world \<Rightarrow> error option \<times> world" where
  "removeTombstones en bid w =
     (let w1 = emit (EvRemoveTombstones bid) w in
      case localDirs w1 bid of
        None \<Rightarrow> (Some (External ''remove tombstones: no such file or directory''), w1)
      | Some d \<Rightarrow>
          if \<not> tombstones d
          then (Some (External ''remove tombstones: no such file or directory''), w1)
          else
            (case removeFile en bid of
               Some err \<Rightarrow> (Some err, w1)
             | None \<Rightarrow>
                 (None, w1\<lparr>localDirs := (localDirs w1)(bid \<mapsto> d\<lparr>tombstones := False\<rparr>)\<rparr>)))"

definition uploadJob ::
  "env \<Rightarrow> ulidWithShardIndex list \<Rightarrow> nat \<Rightarrow> world \<Rightarrow> error option \<times> world" where
  "uploadJob en blocksToUpload idx w =
     (let blockToUpload = blocksToUpload ! idx;
          bid = ulid_of blockToUpload
      in case ReadMetaFromDir (localDirs w) bid of
           Inl err \<Rightarrow> (Some (WrapBlock err ''failed to read meta the block dir %s'' bid), w)
         | Inr newMeta \<Rightarrow>
             (case removeTombstones en bid w of
                (Some err, w1) \<Rightarrow> (Some (Wrap err ''remove tombstones''), w1)
              | (None, w1) \<Rightarrow>
                  (let w2 = emit (EvValidateLocalBlock bid) w1 in
                   case validate en bid of
                     Some err \<Rightarrow> (Some (WrapBlock err ''invalid result block %s'' bid), w2)
                   | None \<Rightarrow>
                       (let w3 = emit (EvUpload bid) w2 in
                        case upload en bid of
                          Some err \<Rightarrow> (Some (WrapBlock err ''upload of %s failed'' bid), w3)
                        | None \<Rightarrow>
                            (None, emit (EvLog LevelInfo ''uploaded block'')
                                     (w3\<lparr>uploaded := insert bid (uploaded w3)\<rparr>))))))"


text \<open>From the creation of the work directory to the end of the compaction. The job
  either returns early (\<open>Exit\<close>) or goes on with the planned blocks, the IDs of the
  compacted blocks and the state reached (\<open>Compacted\<close>). \<open>CompactWithSplitting\<close>
  returns the output metas and writes the output block directories.\<close>

datatype prepared = Exit job_result world | Compacted "meta list" "ulid list" world

definition prepareAndCompact ::
  "env \<Rightarrow> BucketCompactor \<Rightarrow> job_ctx \<Rightarrow> Job \<Rightarrow> world \<Rightarrow> prepared" where
  "prepareAndCompact en c ctx job w =
     (let w1 = emit EvMkdirAll w in
      case mkdirAll en of
        Some err \<Rightarrow> Exit (False, [], Some (Wrap err ''create compaction job dir'')) w1
      | None \<Rightarrow>
      (let w2 = emit EvPlan w1 in
       case plan en (metasByMinTime job) of
         Inl err \<Rightarrow> Exit (False, [], Some (Wrap err ''plan compaction'')) w2
       | Inr toCompact \<Rightarrow>
       if length toCompact = 0 then Exit (False, [], None) w2
       else
       (let w3 = emit (EvLog LevelInfo
                   ''compaction available and planned; downloading blocks'') w2 in
        case ForEachJob (ctx Downloading) (length toCompact) (blockSyncConcurrency c)
               (downloadJob en toCompact) w3 of
          (Some err, w4) \<Rightarrow> Exit (False, [], Some err) w4
        | (None, w4) \<Rightarrow>
        (let w5 = emit EvNewBucket w4 in
         case newBucket en of
           Some err \<Rightarrow> Exit (False, [], Some (Wrap err ''create local bucket'')) w5
         | None \<Rightarrow>
         (case ForEachJob (ctx Opening) (length toCompact) (blockOpenConcurrency c)
                 (openJob en toCompact) w5 of
            (Some err, w6) \<Rightarrow> Exit (False, [], Some err) w6
          | (None, w6) \<Rightarrow>
          (let w7 = emit (EvLog LevelInfo
                      ''downloaded and verified blocks; compacting blocks'') w6;
               shards = (if UseSplitting job then SplittingShards job else 1);
               w8 = emit (EvCompactWithSplitting shards) w7
           in case compact en toCompact shards of
                Inl err \<Rightarrow> Exit (False, [], Some (Wrap err ''compact blocks %v'')) w8
              | Inr (out, written) \<Rightarrow>
                  Compacted toCompact (map ULID out)
                    (w8\<lparr>localDirs := localDirs w8 ++ written\<rparr>)))))))"

text \<open>No output block with a non-zero ULID: the planned blocks without samples are
  deleted, and a failure is only logged.\<close>

fun deleteEmptySources :: "env \<Rightarrow> meta list \<Rightarrow> world \<Rightarrow> world" where
  "deleteEmptySources en [] w = w"
| "deleteEmptySources en (m # rest) w =
     (if NumSamples m = 0 then
        (case deleteBlock en (ULID m) w of
           (Some err, w1) \<Rightarrow>
             deleteEmptySources en rest
               (emit (EvLog LevelWarn
                  ''failed to mark for deletion an empty block found during compaction'') w1)
         | (None, w1) \<Rightarrow> deleteEmptySources en rest w1)
      else deleteEmptySources en rest w)"

definition handleEmptyResult :: "env \<Rightarrow> meta list \<Rightarrow> world \<Rightarrow> job_result \<times> world" where
  "handleEmptyResult en toCompact w =
     (let w1 = emit (EvLog LevelInfo
                 ''compacted block would have no samples, deleting source blocks'') w
      in ((True, [], None), deleteEmptySources en toCompact w1))"

fun markSources :: "env \<Rightarrow> meta list \<Rightarrow> world \<Rightarrow> error option \<times> world" where
  "markSources en [] w = (None, w)"
| "markSources en (m # rest) w =
     (case deleteBlock en (ULID m) w of
        (Some err, w1) \<Rightarrow> (Some (Wrap err ''mark old block for deletion from bucket''), w1)
      | (None, w1) \<Rightarrow> markSources en rest w1)"

text \<open>The verification of the time ranges: an error is logged and counted, and the job
  goes on.\<close>

definition verifyStage :: "meta list \<Rightarrow> ulid list \<Rightarrow> world \<Rightarrow> world" where
  "verifyStage toCompact compIDs w =
     (case verifyCompactedBlocksTimeRanges (localDirs w) compIDs
             (UnixMilli (minTime toCompact)) (UnixMilli (maxTime toCompact)) of
        Some err \<Rightarrow>
          (emit (EvLog LevelWarn ''compacted blocks verification failed'') w)
            \<lparr>compactionBlocksVerificationFailed := compactionBlocksVerificationFailed w + 1\<rparr>
      | None \<Rightarrow> w)"

definition uploadAndMark ::
  "env \<Rightarrow> BucketCompactor \<Rightarrow> job_ctx \<Rightarrow> meta list \<Rightarrow> ulid list \<Rightarrow> world \<Rightarrow> job_result \<times> world" where
  "uploadAndMark en c ctx toCompact compIDs w =
     (let w1 = emit (EvLog LevelInfo ''compacted blocks'') w;
          w2 = verifyStage toCompact compIDs w1;
          blocksToUpload = convertCompactionResultToForEachJobs compIDs
      in case ForEachJob (ctx Uploading) (length blocksToUpload) (blockSyncConcurrency c)
                (uploadJob en blocksToUpload) w2 of
           (Some err, w3) \<Rightarrow> ((False, [], Some err), w3)
         | (None, w3) \<Rightarrow>
             (let w4 = emit (EvLog LevelInfo ''uploaded all blocks'') w3 in
              case markSources en toCompact w4 of
                (Some err, w5) \<Rightarrow> ((False, [], Some err), w5)
              | (None, w5) \<Rightarrow> ((True, compIDs, None), w5)))"

definition runCompactionJobBody ::
  "env \<Rightarrow> BucketCompactor \<Rightarrow> job_ctx \<Rightarrow> Job \<Rightarrow> world \<Rightarrow> job_result \<times> world" where
  "runCompactionJobBody en c ctx job w =
     (case prepareAndCompact en c ctx job w of
        Exit r w1 \<Rightarrow> (r, w1)
      | Compacted toCompact compIDs w1 \<Rightarrow>
          if \<not> hasNonZeroULIDs compIDs then handleEmptyResult en toCompact w1
          else uploadAndMark en c ctx toCompact compIDs w1)"

text \<open>The deferred function: it logs the outcome and removes \<open>subDir\<close>.\<close>

definition jobCleanup :: "env \<Rightarrow> error option \<Rightarrow> world \<Rightarrow> world" where
  "jobCleanup en rerr w =
     (let w1 = (case rerr of
                  None \<Rightarrow> emit (EvLog LevelInfo ''compaction job succeeded'') w
                | Some err \<Rightarrow> emit (EvLog LevelError ''compaction job failed'') w);
          w2 = emit EvRemoveSubDir w1
      in case removeSubDir en of
           Some err \<Rightarrow>
             emit (EvLog LevelError ''failed to remove compaction group work directory'') w2
         | None \<Rightarrow> w2\<lparr>localDirs := Map.empty\<rparr>)"

definition runCompactionJob ::
  "env \<Rightarrow> BucketCompactor \<Rightarrow> job_ctx \<Rightarrow> Job \<Rightarrow> world \<Rightarrow> job_result \<times> world" where
  "runCompactionJob en c ctx job w =
     (case runCompactionJobBody en c ctx job w of
        ((shouldRerun, compIDs, rerr), w1) \<Rightarrow>
          ((shouldRerun, compIDs, rerr), jobCleanup en rerr w1))"

section \<open>The compaction worker of Compact and the ingestion queue's safePut\<close>





section \<open>NoCompactionMarkFilter\<close>

text \<open>\<open>path.Base\<close> of the standard library.\<close>

definition Base :: "string \<Rightarrow> string" where
  "Base p =
     (if p = [] then ''.''
      else
        (let p1 = rev (dropWhile (\<lambda>ch. ch = CHR ''/'') (rev p));
             p2 = rev (takeWhile (\<lambda>ch. ch \<noteq> CHR ''/'') (rev p1))
         in if p2 = [] then ''/'' else p2))"

text \<open>Modelled from the spec: \<open>block.MarkersPathname\<close> is not among the sources; the spec
  has the filter iterate the bucket prefix \<open>markers/\<close>.\<close>

definition MarkersPathname :: string where
  "MarkersPathname = ''markers''"

text \<open>What \<open>bkt.Iter\<close> does for a directory: the object names it hands to the callback,
  in order, and the error it ends with when the listing itself fails.\<close>

record BucketReader =
  iterNames :: "string \<Rightarrow> string list"
  iterFails :: "string \<Rightarrow> error option"

record NoCompactionMarkFilter =
  noCompactMarkedMap :: "ulid set"
  removeNoCompactBlocks :: bool

type_synonym filter_state = "ulid set \<times> (ulid \<rightharpoonup> meta) \<times> nat"

text \<open>The callback of \<open>Filter\<close> over the names; the state is the local
  \<open>noCompactMarkedMap\<close>, \<open>metas\<close> and the gauge \<open>synced\<close>.
  \<open>isNoCompactMarkFilename\<close> is \<open>block.IsNoCompactMarkFilename\<close>, which is not among
  the sources: \<open>Some\<close> of the block ID when the name is one of a no-compact marker.\<close>

fun filterIter ::
  "(string \<Rightarrow> ulid option) \<Rightarrow> (nat \<Rightarrow> bool) \<Rightarrow> bool \<Rightarrow> string list \<Rightarrow> filter_state \<Rightarrow>
     error option \<times> filter_state" where
  "filterIter isNoCompactMarkFilename ctxErr rm [] st = (None, st)"
| "filterIter isNoCompactMarkFilename ctxErr rm (name # names) (marked, metas, synced) =
     (if ctxErr 0 then (Some ContextCanceled, (marked, metas, synced))
      else
        (case isNoCompactMarkFilename (Base name) of
           Some blockID \<Rightarrow>
             if metas blockID \<noteq> None
             then filterIter isNoCompactMarkFilename (\<lambda>i. ctxErr (Suc i)) rm names
                    (insert blockID marked,
                     (if rm then metas(blockID := None) else metas),
                     synced + 1)
             else filterIter isNoCompactMarkFilename (\<lambda>i. ctxErr (Suc i)) rm names
                    (marked, metas, synced)
         | None \<Rightarrow>
             filterIter isNoCompactMarkFilename (\<lambda>i. ctxErr (Suc i)) rm names
               (marked, metas, synced)))"

definition Filter ::
  "(string \<Rightarrow> ulid option) \<Rightarrow> BucketReader \<Rightarrow> (nat \<Rightarrow> bool) \<Rightarrow> NoCompactionMarkFilter \<Rightarrow>
     (ulid \<rightharpoonup> meta) \<Rightarrow> nat \<Rightarrow>
     error option \<times> NoCompactionMarkFilter \<times> (ulid \<rightharpoonup> meta) \<times> nat" where
  "Filter isNoCompactMarkFilename bkt ctxErr f metas synced =
     (case filterIter isNoCompactMarkFilename ctxErr (removeNoCompactBlocks f)
             (iterNames bkt (MarkersPathname @ ''/'')) ({}, metas, synced) of
        (Some err, (marked, metas1, synced1)) \<Rightarrow>
          (Some (Wrap err ''list block no-compact marks''), f, metas1, synced1)
      | (None, (marked, metas1, synced1)) \<Rightarrow>
          (case iterFails bkt (MarkersPathname @ ''/'') of
             Some err \<Rightarrow> (Some (Wrap err ''list block no-compact marks''), f, metas1, synced1)
           | None \<Rightarrow> (None, f\<lparr>noCompactMarkedMap := marked\<rparr>, metas1, synced1)))"

definition NoCompactMarkedBlocks :: "NoCompactionMarkFilter \<Rightarrow> ulid set" where
  "NoCompactMarkedBlocks f = noCompactMarkedMap f"

section \<open>DefaultGroupKey\<close>

text \<open>\<open>labels.FromMap\<close> collects the entries of the map and sorts them by name;
  \<open>fmt.Sprintf("%d@%v", res, h)\<close> prints the resolution and the hash in decimal.
  \<open>stableHash\<close> is \<open>util.StableHash\<close>, which is not among the sources.\<close>

definition FromMap :: "(string \<times> string) list \<Rightarrow> (string \<times> string) list" where
  "FromMap m = sort_key fst m"

definition digitChar :: "nat \<Rightarrow> char" where
  "digitChar n = char_of (48 + n)"

function showNat :: "nat \<Rightarrow> string" where
  "showNat n = (if n < 10 then [digitChar n] else showNat (n div 10) @ [digitChar (n mod 10)])"
  by pat_completeness auto
termination
  by (relation "measure (\<lambda>n. n)") auto

definition showInt :: "int \<Rightarrow> string" where
  "showInt i = (if i < 0 then ''-'' @ showNat (nat (- i)) else showNat (nat i))"

definition defaultGroupKey ::
  "((string \<times> string) list \<Rightarrow> 64 word) \<Rightarrow> int64 \<Rightarrow> (string \<times> string) list \<Rightarrow> string" where
  "defaultGroupKey stableHash res lbls =
     showInt (sint res) @ ''@'' @ showNat (unat (stableHash lbls))"

definition DefaultGroupKey ::
  "((string \<times> string) list \<Rightarrow> 64 word) \<Rightarrow> meta \<Rightarrow> string" where
  "DefaultGroupKey stableHash m =
     defaultGroupKey stableHash (Resolution m) (FromMap (Labels m))"


section \<open>The calls a run makes\<close>

text \<open>The events a run adds to the trace, and the contexts of the calls of
  \<open>block.MarkForDeletion\<close> among them.\<close>

definition newEvents :: "world \<Rightarrow> world \<Rightarrow> event list" where
  "newEvents w w' = drop (length (trace w)) (trace w')"

fun markCtxs :: "event list \<Rightarrow> go_context list" where
  "markCtxs [] = []"
| "markCtxs (EvMarkForDeletion c b d # es) = c # markCtxs es"
| "markCtxs (e # es) = markCtxs es"

text \<open>Whether the directory of a block holds a \<open>tombstones\<close> file.\<close>

definition hasTombstones :: "local_fs \<Rightarrow> ulid \<Rightarrow> bool" where
  "hasTombstones fs bid = (case fs bid of None \<Rightarrow> False | Some d \<Rightarrow> tombstones d)"





section \<open>Example inputs\<close>

definition exMeta :: "ulid \<Rightarrow> int64 \<Rightarrow> int64 \<Rightarrow> nat \<Rightarrow> meta" where
  "exMeta bid lo hi n =
     \<lparr>ULID = bid, MinTime = lo, MaxTime = hi, Labels = [], Resolution = 0, NumSamples = n\<rparr>"

definition exDir :: "meta \<Rightarrow> block_dir" where
  "exDir m = \<lparr>meta_json = Some m, tombstones = True\<rparr>"

text \<open>One output block 7 that covers the times 0 to 5, and one that covers 0 to 10.\<close>

definition fsShort :: local_fs where
  "fsShort = [7 \<mapsto> exDir (exMeta 7 0 5 3)]"

definition fsFull :: local_fs where
  "fsFull = [7 \<mapsto> exDir (exMeta 7 0 10 3)]"

text \<open>A bucket with nothing in it, collaborators that never fail, and a compaction
  that returns the metas \<open>out\<close> and writes the directories \<open>written\<close>; the planner
  returns every block of the job.\<close>

definition exWorld :: world where
  "exWorld = \<lparr>deletionMarks = {}, uploaded = {}, localDirs = Map.empty,
     blocksMarkedForDeletion = 0, compactionBlocksVerificationFailed = 0, trace = []\<rparr>"

definition exEnv :: "meta list \<Rightarrow> local_fs \<Rightarrow> env" where
  "exEnv out written =
     \<lparr>markFails = (\<lambda>ctx bid. None),
      mkdirAll = None,
      plan = (\<lambda>metas. Inr metas),
      download = (\<lambda>bid. Inr \<lparr>meta_json = None, tombstones = False\<rparr>),
      newBucket = None,
      openBlock = (\<lambda>bid. None),
      compact = (\<lambda>metas shards. Inr (out, written)),
      validate = (\<lambda>bid. None),
      upload = (\<lambda>bid. None),
      removeAll = (\<lambda>bid. None),
      removeFile = (\<lambda>bid. None),
      removeSubDir = None\<rparr>"

text \<open>The same collaborators, but the deletion marker of block 8 cannot be written.\<close>

definition exEnvFail8 :: env where
  "exEnvFail8 =
     (exEnv [] Map.empty)\<lparr>markFails :=
        (\<lambda>ctx bid. if bid = 8 then Some (External ''upload deletion mark'') else None)\<rparr>"

definition exSyncer :: syncer where
  "exSyncer = \<lparr>blocks = [7 \<mapsto> exMeta 7 0 5 3, 8 \<mapsto> exMeta 8 0 5 3, 9 \<mapsto> exMeta 9 0 5 3],
     garbageCollections = 0, garbageCollectionFailures = 0, garbageCollectionDuration = 0\<rparr>"

definition exCompactor :: BucketCompactor where
  "exCompactor = \<lparr>compactDir = ''data/compact'', blockSyncConcurrency = 1,
     blockOpenConcurrency = 1\<rparr>"

definition exJob :: "meta list \<Rightarrow> Job" where
  "exJob metas = \<lparr>Key = ''0@17241709254077376921'', metasByMinTime = metas,
     UseSplitting = False, SplittingShards = 0\<rparr>"



definition envNoTombstones :: env where
  "envNoTombstones =
     exEnv [exMeta 2 0 10 5] [2 \<mapsto> \<lparr>meta_json = Some (exMeta 2 0 10 5), tombstones = False\<rparr>]"

text \<open>The output block 2 has its \<open>tombstones\<close> file, but the file system refuses to
  remove it.\<close>

definition envRemoveRefused :: env where
  "envRemoveRefused =
     (exEnv [exMeta 2 0 10 5] [2 \<mapsto> exDir (exMeta 2 0 10 5)])\<lparr>removeFile :=
        (\<lambda>bid. Some (External ''remove tombstones: permission denied''))\<rparr>"

definition envEmptyOutput :: env where
  "envEmptyOutput = exEnv [exMeta 0 0 0 0] Map.empty"

text \<open>A bucket whose \<open>markers/\<close> directory holds the no-compact markers of the blocks 7
  and 9 and the deletion marker of block 8, and a parser of marker names for these
  blocks.\<close>

definition exBucketReader :: BucketReader where
  "exBucketReader =
     \<lparr>iterNames = (\<lambda>dir. if dir = ''markers/''
         then [''markers/7-no-compact-mark.json'', ''markers/8-deletion-mark.json'',
               ''markers/9-no-compact-mark.json'']
         else []),
      iterFails = (\<lambda>dir. None)\<rparr>"

definition exIsNoCompactMarkFilename :: "string \<Rightarrow> ulid option" where
  "exIsNoCompactMarkFilename name =
     (if name = ''7-no-compact-mark.json'' then Some 7
      else if name = ''9-no-compact-mark.json'' then Some 9
      else None)"

definition exMetas :: "ulid \<rightharpoonup> meta" where
  "exMetas = [7 \<mapsto> exMeta 7 0 5 3, 8 \<mapsto> exMeta 8 0 5 3]"

definition exHash :: "(string \<times> string) list \<Rightarrow> 64 word" where
  "exHash lbls = of_nat (length (concat (map (\<lambda>(k, v). k @ v) lbls)))"

section \<open>Properties of verifyCompactedBlocksTimeRanges\<close>

lemma verifyLoop_Inr:
  "verifyLoop fs smin smax ids a b = Inr (a', b') \<longleftrightarrow>
     (\<not> anyUnreadable fs ids \<and> \<not> anyViolation fs smin smax ids \<and>
      a' = (a \<or> minAttained fs smin ids) \<and> b' = (b \<or> maxAttained fs smax ids))"
proof (induction ids arbitrary: a b)
  case Nil
  then show ?case
    by (auto simp: anyUnreadable_def anyViolation_def minAttained_def maxAttained_def nonEmpty_def)
next
  case (Cons compID rest)
  show ?case
  proof (cases "compID = zeroULID")
    case True
    then show ?thesis using Cons.IH [of a b]
      by (simp add: anyUnreadable_def anyViolation_def minAttained_def maxAttained_def nonEmpty_def)
  next
    case nz: False
    show ?thesis
    proof (cases "ReadMetaFromDir fs compID")
      case (Inl e)
      then show ?thesis using nz
        by (simp add: anyUnreadable_def nonEmpty_def readable_def)
    next
      case (Inr m)
      then show ?thesis using nz Cons.IH
        by (auto simp: anyUnreadable_def anyViolation_def minAttained_def maxAttained_def
            nonEmpty_def readable_def metaOf_def violatesBounds_def)
    qed
  qed
qed

lemma verify_error_iff:
  "verifyCompactedBlocksTimeRanges fs compIDs smin smax \<noteq> None \<longleftrightarrow>
     anyUnreadable fs compIDs \<or> anyViolation fs smin smax compIDs
     \<or> \<not> minAttained fs smin compIDs \<or> \<not> maxAttained fs smax compIDs"
proof (cases "verifyLoop fs smin smax compIDs False False")
  case (Inl e)
  then have "\<not> (\<exists>p. verifyLoop fs smin smax compIDs False False = Inr p)" by simp
  then have "anyUnreadable fs compIDs \<or> anyViolation fs smin smax compIDs"
    using verifyLoop_Inr [of fs smin smax compIDs False False] by auto
  then show ?thesis using Inl by (auto simp: verifyCompactedBlocksTimeRanges_def)
next
  case (Inr p)
  obtain a' b' where p: "p = (a', b')" by (cases p)
  show ?thesis using Inr verifyLoop_Inr [of fs smin smax compIDs False False a' b'] p
    by (auto simp: verifyCompactedBlocksTimeRanges_def)
qed

lemmas ex_simps =
  exMeta_def exDir_def ReadMetaFromDir_def zeroULID_def readable_def metaOf_def
  violatesBounds_def nonEmpty_def minAttained_def maxAttained_def anyViolation_def
  anyUnreadable_def word_sless_alt

text \<open>C2, as the claim states it: an error exactly when some non-empty output block
  lies outside the source bounds or neither bound is attained. The output block 7 with
  the times 0 to 5, checked against the source bounds 0 and 10, stays inside the bounds
  and attains the minimum, and the function returns the error all the same.\<close>

theorem C2_neither_counterexample:
  "\<not> (verifyCompactedBlocksTimeRanges fsShort [7] 0 10 \<noteq> None \<longleftrightarrow>
        anyViolation fsShort 0 10 [7]
        \<or> (\<not> minAttained fsShort 0 [7] \<and> \<not> maxAttained fsShort 10 [7]))"
  by (simp add: verifyCompactedBlocksTimeRanges_def fsShort_def ex_simps)

text \<open>C2, amended: \<open>verifyCompactedBlocksTimeRanges\<close> returns an error if and only if the
  \<open>meta.json\<close> of some non-empty output block cannot be read, or some non-empty output
  block has its \<open>MinTime\<close> below \<open>sourceBlocksMinTime\<close> or its \<open>MaxTime\<close> above
  \<open>sourceBlocksMaxTime\<close>, or \<open>sourceBlocksMinTime\<close> is not the \<open>MinTime\<close> of any
  non-empty output block, or \<open>sourceBlocksMaxTime\<close> is not the \<open>MaxTime\<close> of any;
  otherwise it returns nil.\<close>

theorem C2_verify_error_iff:
  "(verifyCompactedBlocksTimeRanges fs compIDs sourceBlocksMinTime sourceBlocksMaxTime = None)
     \<longleftrightarrow>
   (\<not> anyUnreadable fs compIDs
    \<and> \<not> anyViolation fs sourceBlocksMinTime sourceBlocksMaxTime compIDs
    \<and> minAttained fs sourceBlocksMinTime compIDs
    \<and> maxAttained fs sourceBlocksMaxTime compIDs)"
  using verify_error_iff [of fs compIDs sourceBlocksMinTime sourceBlocksMaxTime] by blast

theorem C2_verify_error_iff_witness:
  "\<not> anyUnreadable fsFull [0, 7] \<and> \<not> anyViolation fsFull 0 10 [0, 7]
   \<and> minAttained fsFull 0 [0, 7] \<and> maxAttained fsFull 10 [0, 7]
   \<and> verifyCompactedBlocksTimeRanges fsFull [0, 7] 0 10 = None"
proof -
  have h: "\<not> anyUnreadable fsFull [0, 7] \<and> \<not> anyViolation fsFull 0 10 [0, 7]
      \<and> minAttained fsFull 0 [0, 7] \<and> maxAttained fsFull 10 [0, 7]"
    by (simp add: fsFull_def ex_simps)
  then show ?thesis
    using C2_verify_error_iff [of fsFull "[0, 7]" 0 10] by blast
qed

section \<open>Properties of DefaultGroupKey\<close>

lemma same_keys_same_entries:
  "map fst as = map fst bs \<Longrightarrow> distinct (map fst as) \<Longrightarrow> set as = set bs \<Longrightarrow> as = bs"
proof (induction as arbitrary: bs)
  case Nil
  then show ?case by simp
next
  case (Cons a as)
  then obtain b bs' where bs: "bs = b # bs'" by (cases bs) auto
  from Cons.prems bs have k: "fst a = fst b" "map fst as = map fst bs'" by auto
  have d: "distinct (map fst as)" "fst a \<notin> fst ` set as" using Cons.prems(2) by auto
  from Cons.prems bs have "b = a \<or> b \<in> set as" by auto
  moreover have "b \<notin> set as" using d(2) k(1) by force
  ultimately have ab: "a = b" by blast
  have d': "fst b \<notin> fst ` set bs'" using d k ab by (metis list.set_map)
  have "set as = set bs'"
  proof -
    have "a \<notin> set as" using d(2) by force
    moreover have "b \<notin> set bs'" using d' by force
    ultimately show ?thesis using Cons.prems(3) bs ab by auto
  qed
  then have "as = bs'" using Cons.IH [OF k(2) d(1)] by simp
  then show ?case using ab bs by simp
qed

lemma FromMap_order_independent:
  assumes "distinct (map fst xs)" "distinct (map fst ys)" "set xs = set ys"
  shows "FromMap xs = FromMap ys"
proof -
  let ?a = "sort_key fst xs" and ?b = "sort_key fst ys"
  have "map fst ?a = map fst ?b"
  proof (rule sorted_distinct_set_unique)
    show "sorted (map fst ?a)" "sorted (map fst ?b)" by simp_all
    show "distinct (map fst ?a)" using assms(1) by (metis distinct_map set_sort distinct_sort)
    show "distinct (map fst ?b)" using assms(2) by (metis distinct_map set_sort distinct_sort)
    show "set (map fst ?a) = set (map fst ?b)" using assms(3) by simp
  qed
  moreover have "distinct (map fst ?a)" using assms(1) by (metis distinct_map set_sort distinct_sort)
  moreover have "set ?a = set ?b" using assms(3) by simp
  ultimately show ?thesis unfolding FromMap_def by (rule same_keys_same_entries)
qed

text \<open>C9: two block metas with the same resolution and the same label map, whatever the
  order in which the entries of the maps come, have the same \<open>DefaultGroupKey\<close>.\<close>

theorem C9_DefaultGroupKey_order_independent:
  assumes "distinct (map fst (Labels m1))" and "distinct (map fst (Labels m2))"
    and "map_of (Labels m1) = map_of (Labels m2)"
    and "Resolution m1 = Resolution m2"
  shows "DefaultGroupKey stableHash m1 = DefaultGroupKey stableHash m2"
proof -
  have "set (Labels m1) = set (Labels m2)"
    using assms(1-3) by (simp add: map_of_inject_set)
  then have "FromMap (Labels m1) = FromMap (Labels m2)"
    using assms(1,2) by (rule FromMap_order_independent [rotated 2])
  then show ?thesis using assms(4) by (simp add: DefaultGroupKey_def)
qed

theorem C9_DefaultGroupKey_order_independent_witness:
  "DefaultGroupKey exHash
     \<lparr>ULID = 1, MinTime = 0, MaxTime = 5,
      Labels = [(''service'', ''api''), (''env'', ''prod'')], Resolution = 0, NumSamples = 3\<rparr>
   = DefaultGroupKey exHash
     \<lparr>ULID = 2, MinTime = 5, MaxTime = 9,
      Labels = [(''env'', ''prod''), (''service'', ''api'')], Resolution = 0, NumSamples = 4\<rparr>"
proof (rule C9_DefaultGroupKey_order_independent)
  show "map_of (Labels \<lparr>ULID = 1, MinTime = 0, MaxTime = 5,
      Labels = [(''service'', ''api''), (''env'', ''prod'')], Resolution = 0, NumSamples = 3\<rparr>)
    = map_of (Labels \<lparr>ULID = 2, MinTime = 5, MaxTime = 9,
      Labels = [(''env'', ''prod''), (''service'', ''api'')], Resolution = 0, NumSamples = 4\<rparr>)"
    by (simp add: fun_eq_iff)
qed simp_all

section \<open>Properties of NoCompactionMarkFilter\<close>

lemma filterIter_None:
  "filterIter isNo ctxErr rm names (marked, metas, synced) = (None, (marked', metas', synced')) \<Longrightarrow>
     marked' = marked \<union> {blockID. (\<exists>name \<in> set names. isNo (Base name) = Some blockID) \<and> metas blockID \<noteq> None}
     \<and> metas' = (if rm then metas |` (- {blockID. \<exists>name \<in> set names. isNo (Base name) = Some blockID}) else metas)"
proof (induction names arbitrary: ctxErr marked metas synced)
  case Nil
  then show ?case by (auto simp: restrict_map_def)
next
  case (Cons name names)
  from Cons.prems have nc: "\<not> ctxErr 0" by (auto split: if_splits)
  show ?case
  proof (cases "isNo (Base name)")
    case None
    with Cons.prems nc have
      "filterIter isNo (\<lambda>i. ctxErr (Suc i)) rm names (marked, metas, synced) = (None, (marked', metas', synced'))"
      by simp
    from Cons.IH [OF this] None show ?thesis by auto
  next
    case (Some blockID)
    show ?thesis
    proof (cases "metas blockID")
      case None
      with Cons.prems nc Some have
        "filterIter isNo (\<lambda>i. ctxErr (Suc i)) rm names (marked, metas, synced) = (None, (marked', metas', synced'))"
        by simp
      from Cons.IH [OF this] Some None show ?thesis
        by (auto simp: restrict_map_def fun_eq_iff)
    next
      case present: (Some m)
      with Cons.prems nc Some have
        "filterIter isNo (\<lambda>i. ctxErr (Suc i)) rm names
           (insert blockID marked, (if rm then metas(blockID := None) else metas), synced + 1)
         = (None, (marked', metas', synced'))"
        by simp
      from Cons.IH [OF this] Some present show ?thesis
        by (auto simp: restrict_map_def fun_eq_iff split: if_splits)
    qed
  qed
qed

text \<open>C8: after a call of \<open>Filter\<close> that returns nil, \<open>NoCompactMarkedBlocks()\<close> is the
  set of the block IDs that have a no-compact marker name under \<open>markers/\<close> and are
  in the metas passed in; with \<open>removeNoCompactBlocks\<close> these entries are deleted from
  the metas, and without it the metas are unchanged.\<close>

theorem C8_Filter_marked_blocks:
  assumes "Filter isNo bkt ctxErr f metas synced = (None, f', metas', synced')"
  shows "NoCompactMarkedBlocks f' =
           {blockID. (\<exists>name \<in> set (iterNames bkt ''markers/''). isNo (Base name) = Some blockID)
                     \<and> metas blockID \<noteq> None}
         \<and> (removeNoCompactBlocks f \<longrightarrow> metas' = metas |` (- NoCompactMarkedBlocks f'))
         \<and> (\<not> removeNoCompactBlocks f \<longrightarrow> metas' = metas)"
proof -
  obtain r marked m1 s1 where it:
    "filterIter isNo ctxErr (removeNoCompactBlocks f) (iterNames bkt ''markers/'') ({}, metas, synced)
       = (r, (marked, m1, s1))"
    by (metis prod.exhaust)
  with assms have r: "r = None" and f': "f' = f\<lparr>noCompactMarkedMap := marked\<rparr>" and m: "metas' = m1"
    by (auto simp: Filter_def MarkersPathname_def split: option.splits)
  from filterIter_None [OF it [unfolded r]] f' m show ?thesis
    by (auto simp: NoCompactMarkedBlocks_def restrict_map_def fun_eq_iff)
qed

theorem C8_Filter_marked_blocks_witness:
  "fst (Filter exIsNoCompactMarkFilename exBucketReader (\<lambda>i. False)
          \<lparr>noCompactMarkedMap = {}, removeNoCompactBlocks = True\<rparr> exMetas 0) = None
   \<and> NoCompactMarkedBlocks (fst (snd (Filter exIsNoCompactMarkFilename exBucketReader (\<lambda>i. False)
          \<lparr>noCompactMarkedMap = {}, removeNoCompactBlocks = True\<rparr> exMetas 0))) = {7}
   \<and> fst (snd (snd (Filter exIsNoCompactMarkFilename exBucketReader (\<lambda>i. False)
          \<lparr>noCompactMarkedMap = {}, removeNoCompactBlocks = True\<rparr> exMetas 0)))
       = exMetas |` (- {7})"
proof -
  let ?F = "Filter exIsNoCompactMarkFilename exBucketReader (\<lambda>i. False)
          \<lparr>noCompactMarkedMap = {}, removeNoCompactBlocks = True\<rparr> exMetas 0"
  have ok: "fst ?F = None"
    by (simp add: Filter_def MarkersPathname_def exBucketReader_def Base_def
        exIsNoCompactMarkFilename_def exMetas_def)
  then have run: "?F = (None, fst (snd ?F), fst (snd (snd ?F)), snd (snd (snd ?F)))"
    by (metis prod.collapse)
  have names: "{blockID. (\<exists>name \<in> set (iterNames exBucketReader ''markers/'').
        exIsNoCompactMarkFilename (Base name) = Some blockID) \<and> exMetas blockID \<noteq> None} = {7}"
    by (auto simp: exBucketReader_def Base_def exIsNoCompactMarkFilename_def exMetas_def
        split: if_splits)
  show ?thesis using ok C8_Filter_marked_blocks [OF run] names by simp
qed

section \<open>Properties of Syncer.GarbageCollect\<close>

lemma MarkForDeletion_effect:
  "MarkForDeletion en ctx bid details w = (r, w') \<Longrightarrow>
     trace w' = trace w @ [EvMarkForDeletion ctx bid details]
     \<and> localDirs w' = localDirs w \<and> uploaded w' = uploaded w
     \<and> compactionBlocksVerificationFailed w' = compactionBlocksVerificationFailed w
     \<and> r = markFails en ctx bid
     \<and> deletionMarks w' = (if r = None then insert bid (deletionMarks w) else deletionMarks w)"
  by (auto simp: MarkForDeletion_def emit_def Let_def split: option.splits)

lemma gcLoop_cases:
  "gcLoop en ctxErr dups s w = (r, s', w') \<Longrightarrow>
   \<exists>k \<le> length dups.
     (\<forall>i<k. \<not> ctxErr i \<and> markFails en (WithTimeout Background (5 * Minute)) (dups ! i) = None)
     \<and> deletionMarks w' = deletionMarks w \<union> set (take k dups)
     \<and> blocks s' = blocks s |` (- set (take k dups))
     \<and> ((k = length dups \<and> r = None
          \<and> garbageCollections s' = garbageCollections s + 1
          \<and> garbageCollectionDuration s' = garbageCollectionDuration s + 1
          \<and> garbageCollectionFailures s' = garbageCollectionFailures s)
        \<or> (k < length dups \<and> ctxErr k \<and> r = Some ContextCanceled
          \<and> garbageCollections s' = garbageCollections s
          \<and> garbageCollectionDuration s' = garbageCollectionDuration s
          \<and> garbageCollectionFailures s' = garbageCollectionFailures s)
        \<or> (k < length dups \<and> \<not> ctxErr k
          \<and> (\<exists>err. markFails en (WithTimeout Background (5 * Minute)) (dups ! k) = Some err
                \<and> r = Some (WrapBlock err ''mark block %s for deletion'' (dups ! k)))
          \<and> garbageCollections s' = garbageCollections s
          \<and> garbageCollectionDuration s' = garbageCollectionDuration s
          \<and> garbageCollectionFailures s' = garbageCollectionFailures s + 1))"
proof (induction dups arbitrary: ctxErr s w)
  case Nil
  then show ?case by auto
next
  case (Cons bid rest)
  let ?D = "WithTimeout Background (5 * Minute)"
  let ?w1 = "emit (EvLog LevelInfo ''marking outdated block for deletion'') w"
  show ?case
  proof (cases "ctxErr 0")
    case True
    with Cons.prems show ?thesis by (intro exI [of _ 0]) auto
  next
    case nc: False
    obtain r2 w2 where mk: "MarkForDeletion en ?D bid ''outdated block'' ?w1 = (r2, w2)"
      by (metis prod.exhaust)
    note eff = MarkForDeletion_effect [OF mk]
    have step: "gcLoop en ctxErr (bid # rest) s w =
        (case r2 of
           Some err \<Rightarrow> (Some (WrapBlock err ''mark block %s for deletion'' bid),
                s\<lparr>garbageCollectionFailures := garbageCollectionFailures s + 1\<rparr>, w2)
         | None \<Rightarrow> gcLoop en (\<lambda>i. ctxErr (Suc i)) rest (s\<lparr>blocks := (blocks s)(bid := None)\<rparr>) w2)"
      using nc mk by simp
    have r2: "markFails en ?D bid = r2" using eff by simp
    have m2: "deletionMarks w2 = (if r2 = None then insert bid (deletionMarks w) else deletionMarks w)"
      using eff by (simp add: emit_def)
    show ?thesis
    proof (cases r2)
      case (Some err)
      with Cons.prems step r2 m2 nc show ?thesis
        by (intro exI [of _ 0]) (auto simp del: gcLoop.simps)
    next
      case None
      define s2 where "s2 = s\<lparr>blocks := (blocks s)(bid := None)\<rparr>"
      have s2: "blocks s2 = (blocks s)(bid := None)"
        "garbageCollections s2 = garbageCollections s"
        "garbageCollectionDuration s2 = garbageCollectionDuration s"
        "garbageCollectionFailures s2 = garbageCollectionFailures s"
        by (simp_all add: s2_def)
      from None Cons.prems step have rec:
        "gcLoop en (\<lambda>i. ctxErr (Suc i)) rest s2 w2 = (r, s', w')"
        by (simp add: s2_def)
      have ih: "\<exists>k \<le> length rest. (\<forall>i<k. \<not> ctxErr (Suc i) \<and> markFails en ?D (rest ! i) = None)
        \<and> deletionMarks w' = deletionMarks w2 \<union> set (take k rest)
        \<and> blocks s' = ((blocks s)(bid := None)) |` (- set (take k rest))
        \<and> ((k = length rest \<and> r = None
          \<and> garbageCollections s' = garbageCollections s + 1
          \<and> garbageCollectionDuration s' = garbageCollectionDuration s + 1
          \<and> garbageCollectionFailures s' = garbageCollectionFailures s)
        \<or> (k < length rest \<and> ctxErr (Suc k) \<and> r = Some ContextCanceled
          \<and> garbageCollections s' = garbageCollections s
          \<and> garbageCollectionDuration s' = garbageCollectionDuration s
          \<and> garbageCollectionFailures s' = garbageCollectionFailures s)
        \<or> (k < length rest \<and> \<not> ctxErr (Suc k)
          \<and> (\<exists>err. markFails en ?D (rest ! k) = Some err
                \<and> r = Some (WrapBlock err ''mark block %s for deletion'' (rest ! k)))
          \<and> garbageCollections s' = garbageCollections s
          \<and> garbageCollectionDuration s' = garbageCollectionDuration s
          \<and> garbageCollectionFailures s' = garbageCollectionFailures s + 1))"
        using Cons.IH [OF rec] unfolding s2 .
      then obtain k where k: "k \<le> length rest"
        and ok: "\<forall>i<k. \<not> ctxErr (Suc i) \<and> markFails en ?D (rest ! i) = None"
        and marks: "deletionMarks w' = deletionMarks w2 \<union> set (take k rest)"
        and blk: "blocks s' = ((blocks s)(bid := None)) |` (- set (take k rest))"
        and fin: "(k = length rest \<and> r = None
          \<and> garbageCollections s' = garbageCollections s + 1
          \<and> garbageCollectionDuration s' = garbageCollectionDuration s + 1
          \<and> garbageCollectionFailures s' = garbageCollectionFailures s)
        \<or> (k < length rest \<and> ctxErr (Suc k) \<and> r = Some ContextCanceled
          \<and> garbageCollections s' = garbageCollections s
          \<and> garbageCollectionDuration s' = garbageCollectionDuration s
          \<and> garbageCollectionFailures s' = garbageCollectionFailures s)
        \<or> (k < length rest \<and> \<not> ctxErr (Suc k)
          \<and> (\<exists>err. markFails en ?D (rest ! k) = Some err
                \<and> r = Some (WrapBlock err ''mark block %s for deletion'' (rest ! k)))
          \<and> garbageCollections s' = garbageCollections s
          \<and> garbageCollectionDuration s' = garbageCollectionDuration s
          \<and> garbageCollectionFailures s' = garbageCollectionFailures s + 1)"
        by blast
      have ok': "\<forall>i<Suc k. \<not> ctxErr i \<and> markFails en ?D ((bid # rest) ! i) = None"
      proof (intro allI impI)
        fix i assume "i < Suc k"
        then show "\<not> ctxErr i \<and> markFails en ?D ((bid # rest) ! i) = None"
          using nc ok r2 None by (cases i) auto
      qed
      have marks': "deletionMarks w' = deletionMarks w \<union> set (take (Suc k) (bid # rest))"
        using marks m2 None by auto
      have blk': "blocks s' = blocks s |` (- set (take (Suc k) (bid # rest)))"
        using blk by (auto simp: restrict_map_def fun_eq_iff)
      show ?thesis
        apply (intro exI [of _ "Suc k"])
        using k ok' marks' blk' fin by simp
    qed
  qed
qed


text \<open>C4, as the claim states it: a duplicate is marked and removed from the map, or a
  marking failure is counted. With a context that is cancelled already, the duplicate 7,
  whose marking would succeed, is neither marked nor removed, and no failure is
  counted.\<close>

theorem C4_cancelled_counterexample:
  "markFails (exEnv [] Map.empty) (WithTimeout Background (5 * Minute)) 7 = None
   \<and> fst (GarbageCollect (exEnv [] Map.empty) (\<lambda>i. True) [7] exSyncer exWorld)
       = Some ContextCanceled
   \<and> 7 \<notin> deletionMarks (snd (snd (GarbageCollect (exEnv [] Map.empty) (\<lambda>i. True) [7]
         exSyncer exWorld)))
   \<and> blocks (fst (snd (GarbageCollect (exEnv [] Map.empty) (\<lambda>i. True) [7] exSyncer exWorld))) 7
       \<noteq> None
   \<and> garbageCollectionFailures (fst (snd (GarbageCollect (exEnv [] Map.empty) (\<lambda>i. True) [7]
         exSyncer exWorld))) = 0
   \<and> garbageCollections (fst (snd (GarbageCollect (exEnv [] Map.empty) (\<lambda>i. True) [7]
         exSyncer exWorld))) = 0"
  by (simp add: GarbageCollect_def exEnv_def exSyncer_def exWorld_def)

text \<open>C4, amended: a call of \<open>GarbageCollect\<close> works through the duplicates in order and
  stops at the first one, at position \<open>k\<close>, before which the caller's context is
  cancelled or whose marking fails. The duplicates before \<open>k\<close> are marked for deletion
  in the bucket and removed from the blocks map, the others are left alone. When no
  duplicate stops the loop, \<open>garbageCollections\<close> and \<open>garbageCollectionDuration\<close> are
  incremented and the call returns nil; a cancelled context returns the context's error
  and changes no counter; a marking failure increments \<open>garbageCollectionFailures\<close> and
  returns that error.\<close>

theorem C4_GarbageCollect_outcome:
  assumes "GarbageCollect en ctxErr dups s w = (r, s', w')"
  shows "\<exists>k \<le> length dups.
     (\<forall>i<k. \<not> ctxErr i \<and> markFails en (WithTimeout Background (5 * Minute)) (dups ! i) = None)
     \<and> deletionMarks w' = deletionMarks w \<union> set (take k dups)
     \<and> blocks s' = blocks s |` (- set (take k dups))
     \<and> ((k = length dups \<and> r = None
          \<and> garbageCollections s' = garbageCollections s + 1
          \<and> garbageCollectionDuration s' = garbageCollectionDuration s + 1
          \<and> garbageCollectionFailures s' = garbageCollectionFailures s)
        \<or> (k < length dups \<and> ctxErr k \<and> r = Some ContextCanceled
          \<and> garbageCollections s' = garbageCollections s
          \<and> garbageCollectionDuration s' = garbageCollectionDuration s
          \<and> garbageCollectionFailures s' = garbageCollectionFailures s)
        \<or> (k < length dups \<and> \<not> ctxErr k
          \<and> (\<exists>err. markFails en (WithTimeout Background (5 * Minute)) (dups ! k) = Some err
                \<and> r = Some (WrapBlock err ''mark block %s for deletion'' (dups ! k)))
          \<and> garbageCollections s' = garbageCollections s
          \<and> garbageCollectionDuration s' = garbageCollectionDuration s
          \<and> garbageCollectionFailures s' = garbageCollectionFailures s + 1))"
  using assms unfolding GarbageCollect_def by (rule gcLoop_cases)

theorem C4_GarbageCollect_outcome_witness:
  "fst (GarbageCollect exEnvFail8 (\<lambda>i. False) [7, 8, 9] exSyncer exWorld)
     = Some (WrapBlock (External ''upload deletion mark'') ''mark block %s for deletion'' 8)
   \<and> (\<exists>k \<le> length [7, 8, 9 :: ulid].
        deletionMarks (snd (snd (GarbageCollect exEnvFail8 (\<lambda>i. False) [7, 8, 9] exSyncer exWorld)))
          = deletionMarks exWorld \<union> set (take k [7, 8, 9])
        \<and> blocks (fst (snd (GarbageCollect exEnvFail8 (\<lambda>i. False) [7, 8, 9] exSyncer exWorld)))
          = blocks exSyncer |` (- set (take k [7, 8, 9])))
   \<and> garbageCollectionFailures
        (fst (snd (GarbageCollect exEnvFail8 (\<lambda>i. False) [7, 8, 9] exSyncer exWorld))) = 1
   \<and> garbageCollections
        (fst (snd (GarbageCollect exEnvFail8 (\<lambda>i. False) [7, 8, 9] exSyncer exWorld))) = 0"
proof -
  let ?G = "GarbageCollect exEnvFail8 (\<lambda>i. False) [7, 8, 9] exSyncer exWorld"
  have run: "?G = (fst ?G, fst (snd ?G), snd (snd ?G))" by simp
  have "fst ?G = Some (WrapBlock (External ''upload deletion mark'') ''mark block %s for deletion'' 8)"
    by (simp add: GarbageCollect_def exEnvFail8_def exEnv_def exSyncer_def exWorld_def
        MarkForDeletion_def emit_def)
  moreover have "garbageCollectionFailures (fst (snd ?G)) = 1"
    "garbageCollections (fst (snd ?G)) = 0"
    by (simp_all add: GarbageCollect_def exEnvFail8_def exEnv_def exSyncer_def exWorld_def
        MarkForDeletion_def emit_def)
  moreover have "\<exists>k \<le> length [7, 8, 9 :: ulid].
        deletionMarks (snd (snd ?G)) = deletionMarks exWorld \<union> set (take k [7, 8, 9])
        \<and> blocks (fst (snd ?G)) = blocks exSyncer |` (- set (take k [7, 8, 9]))"
    using C4_GarbageCollect_outcome [OF run] by blast
  ultimately show ?thesis by blast
qed

section \<open>The context of the deletion markers\<close>

lemma markCtxs_append: "markCtxs (xs @ ys) = markCtxs xs @ markCtxs ys"
  by (induction xs rule: markCtxs.induct) simp_all

lemma gcLoop_trace:
  "gcLoop en ctxErr dups s w = (r, s', w') \<Longrightarrow>
     \<exists>evs. trace w' = trace w @ evs
       \<and> (\<forall>c \<in> set (markCtxs evs). c = WithTimeout Background (5 * Minute))"
proof (induction dups arbitrary: ctxErr s w)
  case Nil
  then show ?case by auto
next
  case (Cons bid rest)
  let ?D = "WithTimeout Background (5 * Minute)"
  let ?w1 = "emit (EvLog LevelInfo ''marking outdated block for deletion'') w"
  show ?case
  proof (cases "ctxErr 0")
    case True
    with Cons.prems show ?thesis by auto
  next
    case nc: False
    obtain r2 w2 where mk: "MarkForDeletion en ?D bid ''outdated block'' ?w1 = (r2, w2)"
      by (metis prod.exhaust)
    have t2: "trace w2 = trace w @ [EvLog LevelInfo ''marking outdated block for deletion'',
        EvMarkForDeletion ?D bid ''outdated block'']"
      using MarkForDeletion_effect [OF mk] by (simp add: emit_def)
    have step: "gcLoop en ctxErr (bid # rest) s w =
        (case r2 of
           Some err \<Rightarrow> (Some (WrapBlock err ''mark block %s for deletion'' bid),
                s\<lparr>garbageCollectionFailures := garbageCollectionFailures s + 1\<rparr>, w2)
         | None \<Rightarrow> gcLoop en (\<lambda>i. ctxErr (Suc i)) rest (s\<lparr>blocks := (blocks s)(bid := None)\<rparr>) w2)"
      using nc mk by simp
    show ?thesis
    proof (cases r2)
      case (Some err)
      with Cons.prems step have "w' = w2" by simp
      with t2 show ?thesis by simp
    next
      case None
      with Cons.prems step have
        "gcLoop en (\<lambda>i. ctxErr (Suc i)) rest (s\<lparr>blocks := (blocks s)(bid := None)\<rparr>) w2 = (r, s', w')"
        by simp
      from Cons.IH [OF this] obtain evs where
        "trace w' = trace w2 @ evs" "\<forall>c \<in> set (markCtxs evs). c = ?D" by blast
      with t2 show ?thesis by (simp add: markCtxs_append)
    qed
  qed
qed

lemma deleteBlock_trace:
  assumes "deleteBlock en bid w = (r, w')"
  shows "\<exists>evs. trace w' = trace w @ evs
       \<and> (\<forall>c \<in> set (markCtxs evs). c = WithTimeout Background (5 * Minute))"
proof (cases "removeAll en bid")
  case (Some err)
  with assms show ?thesis by (auto simp: deleteBlock_def emit_def)
next
  case None
  let ?D = "WithTimeout Background (5 * Minute)"
  let ?w3 = "emit (EvLog LevelInfo ''marking compacted block for deletion'')
               ((emit (EvRemoveAll bid) w)\<lparr>localDirs := (localDirs (emit (EvRemoveAll bid) w))(bid := None)\<rparr>)"
  obtain r4 w4 where mk: "MarkForDeletion en ?D bid ''source of compacted block'' ?w3 = (r4, w4)"
    by (metis prod.exhaust)
  have t4: "trace w4 = trace w @ [EvRemoveAll bid, EvLog LevelInfo ''marking compacted block for deletion'',
        EvMarkForDeletion ?D bid ''source of compacted block'']"
    using MarkForDeletion_effect [OF mk] by (simp add: emit_def)
  have "w' = w4" using assms None mk by (auto simp: deleteBlock_def Let_def split: option.splits)
  with t4 show ?thesis by simp
qed

text \<open>C6: every call of \<open>block.MarkForDeletion\<close> that \<open>GarbageCollect\<close> and
  \<open>deleteBlock\<close> make gets the context \<open>context.WithTimeout(context.Background(),
  5*time.Minute)\<close>, which is done after five minutes and not before, whether the
  caller's context is cancelled or not.\<close>

theorem C6_deletion_marks_fresh_context:
  assumes "GarbageCollect en ctxErr dups s w = (r, s', w')" and "deleteBlock en bid v = (r2, v')"
  shows "\<forall>c \<in> set (markCtxs (newEvents w w')) \<union> set (markCtxs (newEvents v v')).
           c = WithTimeout Background (5 * Minute)
           \<and> (\<forall>callerCancelled elapsed. ctxDone c callerCancelled elapsed = (5 * Minute \<le> elapsed))"
proof -
  from assms(1) obtain evs where "trace w' = trace w @ evs"
    "\<forall>c \<in> set (markCtxs evs). c = WithTimeout Background (5 * Minute)"
    unfolding GarbageCollect_def using gcLoop_trace by blast
  moreover from deleteBlock_trace [OF assms(2)] obtain evs2 where "trace v' = trace v @ evs2"
    "\<forall>c \<in> set (markCtxs evs2). c = WithTimeout Background (5 * Minute)" by blast
  ultimately show ?thesis by (auto simp: newEvents_def)
qed

theorem C6_deletion_marks_fresh_context_witness:
  "markCtxs (newEvents exWorld
      (snd (snd (GarbageCollect (exEnv [] Map.empty) (\<lambda>i. i \<ge> 1) [7, 8] exSyncer exWorld))))
     = [WithTimeout Background (5 * Minute)]
   \<and> markCtxs (newEvents exWorld (snd (deleteBlock (exEnv [] Map.empty) 9 exWorld)))
     = [WithTimeout Background (5 * Minute)]
   \<and> \<not> ctxDone (WithTimeout Background (5 * Minute)) True (4 * Minute)
   \<and> ctxDone (WithTimeout Background (5 * Minute)) False (5 * Minute)"
proof -
  let ?G = "GarbageCollect (exEnv [] Map.empty) (\<lambda>i. i \<ge> 1) [7, 8] exSyncer exWorld"
  let ?B = "deleteBlock (exEnv [] Map.empty) 9 exWorld"
  have run: "?G = (fst ?G, fst (snd ?G), snd (snd ?G))" "?B = (fst ?B, snd ?B)" by simp_all
  have a: "markCtxs (newEvents exWorld (snd (snd ?G))) = [WithTimeout Background (5 * Minute)]"
    by (simp add: GarbageCollect_def exEnv_def exSyncer_def exWorld_def MarkForDeletion_def
        emit_def newEvents_def)
  have b: "markCtxs (newEvents exWorld (snd ?B)) = [WithTimeout Background (5 * Minute)]"
    by (simp add: deleteBlock_def exEnv_def exWorld_def MarkForDeletion_def emit_def
        newEvents_def)
  have "WithTimeout Background (5 * Minute) \<in> set (markCtxs (newEvents exWorld (snd (snd ?G))))
          \<union> set (markCtxs (newEvents exWorld (snd ?B)))"
    using a by simp
  with C6_deletion_marks_fresh_context [OF run] have
    "\<forall>callerCancelled elapsed.
       ctxDone (WithTimeout Background (5 * Minute)) callerCancelled elapsed = (5 * Minute \<le> elapsed)"
    by blast
  then have "\<not> ctxDone (WithTimeout Background (5 * Minute)) True (4 * Minute)"
    "ctxDone (WithTimeout Background (5 * Minute)) False (5 * Minute)"
    by (simp_all add: Minute_def)
  with a b show ?thesis by blast
qed

section \<open>Panics in the compaction worker and in safePut\<close>




section \<open>Properties of runCompactionJob\<close>

declare forEachWorker.simps [simp del]

lemma forEachWorker_cancelled:
  "ctxErr idx \<Longrightarrow> forEachWorker ctxErr jobs f idx w = (Some ContextCanceled, w)"
  by (subst forEachWorker.simps) simp

lemma forEachWorker_finished:
  "\<not> ctxErr idx \<Longrightarrow> jobs \<le> idx \<Longrightarrow> forEachWorker ctxErr jobs f idx w = (None, w)"
  by (subst forEachWorker.simps) simp

lemma forEachWorker_step:
  "\<not> ctxErr idx \<Longrightarrow> idx < jobs \<Longrightarrow>
     forEachWorker ctxErr jobs f idx w =
       (case f idx w of
          (Some err, w1) \<Rightarrow> (Some err, w1)
        | (None, w1) \<Rightarrow> forEachWorker ctxErr jobs f (Suc idx) w1)"
  by (subst forEachWorker.simps) simp

lemma forEachWorker_preserves:
  "(\<And>i v r v'. f i v = (r, v') \<Longrightarrow> g v' = g v) \<Longrightarrow>
     forEachWorker ctxErr jobs f idx w = (r, w') \<Longrightarrow> g w' = g w"
proof (induction ctxErr jobs f idx w rule: forEachWorker.induct)
  case (1 ctxErr jobs jobFunc idx w)
  note inv = "1.prems"(1) and run = "1.prems"(2)
  show ?case
  proof (cases "ctxErr idx")
    case True
    with run show ?thesis by (simp add: forEachWorker_cancelled)
  next
    case nc: False
    show ?thesis
    proof (cases "jobs \<le> idx")
      case True
      with run nc show ?thesis by (simp add: forEachWorker_finished)
    next
      case False
      then have lt: "idx < jobs" by simp
      obtain r1 w1 where f: "jobFunc idx w = (r1, w1)" by (metis prod.exhaust)
      have g1: "g w1 = g w" using inv f by blast
      show ?thesis
      proof (cases r1)
        case None
        with run nc lt f have "forEachWorker ctxErr jobs jobFunc (Suc idx) w1 = (r, w')"
          by (simp add: forEachWorker_step)
        from "1.IH" [OF nc False f [symmetric] None inv this] g1 show ?thesis by simp
      next
        case (Some err)
        with run nc lt f have "w' = w1" by (simp add: forEachWorker_step)
        with g1 show ?thesis by simp
      qed
    qed
  qed
qed

lemma ForEachJob_preserves:
  "(\<And>i v r v'. f i v = (r, v') \<Longrightarrow> g v' = g v) \<Longrightarrow>
     ForEachJob ctxErr jobs conc f w = (r, w') \<Longrightarrow> g w' = g w"
  using forEachWorker_preserves [of f g ctxErr jobs 0 w r w']
  by (auto simp: ForEachJob_def split: if_splits)


lemma jobCleanup_effect:
  "deletionMarks (jobCleanup en rerr w) = deletionMarks w"
  "uploaded (jobCleanup en rerr w) = uploaded w"
  "compactionBlocksVerificationFailed (jobCleanup en rerr w) = compactionBlocksVerificationFailed w"
  by (auto simp: jobCleanup_def emit_def Let_def split: option.splits)

lemma deleteBlock_effect:
  assumes "deleteBlock en bid w = (r, w')"
  shows "uploaded w' = uploaded w"
    and "compactionBlocksVerificationFailed w' = compactionBlocksVerificationFailed w"
    and "deletionMarks w' = (if r = None then insert bid (deletionMarks w) else deletionMarks w)"
    and "r = None \<longleftrightarrow>
           removeAll en bid = None \<and> markFails en (WithTimeout Background (5 * Minute)) bid = None"
proof -
  let ?D = "WithTimeout Background (5 * Minute)"
  let ?w3 = "emit (EvLog LevelInfo ''marking compacted block for deletion'')
               ((emit (EvRemoveAll bid) w)\<lparr>localDirs := (localDirs (emit (EvRemoveAll bid) w))(bid := None)\<rparr>)"
  obtain r4 w4 where mk: "MarkForDeletion en ?D bid ''source of compacted block'' ?w3 = (r4, w4)"
    by (metis prod.exhaust)
  note eff = MarkForDeletion_effect [OF mk]
  have res: "(r, w') = (case removeAll en bid of
       Some err \<Rightarrow> (Some (WrapBlock err ''remove old block dir %s'' bid), emit (EvRemoveAll bid) w)
     | None \<Rightarrow> (case r4 of Some err \<Rightarrow> (Some (WrapBlock err ''mark block %s for deletion from bucket'' bid), w4)
                | None \<Rightarrow> (None, w4)))"
    using assms mk by (simp add: deleteBlock_def Let_def split: option.splits)
  have r4: "r4 = markFails en ?D bid" using eff by simp
  have m4: "deletionMarks w4 = (if r4 = None then insert bid (deletionMarks w) else deletionMarks w)"
    "uploaded w4 = uploaded w"
    "compactionBlocksVerificationFailed w4 = compactionBlocksVerificationFailed w"
    using eff by (simp_all add: emit_def)
  show "uploaded w' = uploaded w"
    using res m4 by (auto simp: emit_def split: option.splits)
  show "compactionBlocksVerificationFailed w' = compactionBlocksVerificationFailed w"
    using res m4 by (auto simp: emit_def split: option.splits)
  show "deletionMarks w' = (if r = None then insert bid (deletionMarks w) else deletionMarks w)"
    using res m4 by (auto simp: emit_def split: option.splits)
  show "r = None \<longleftrightarrow> removeAll en bid = None \<and> markFails en ?D bid = None"
    using res r4 by (auto split: option.splits)
qed

lemma downloadJob_effect:
  "downloadJob en tc i v = (r, v') \<Longrightarrow>
     (deletionMarks v', uploaded v', compactionBlocksVerificationFailed v')
       = (deletionMarks v, uploaded v, compactionBlocksVerificationFailed v)"
  by (auto simp: downloadJob_def emit_def Let_def split: sum.splits)

lemma openJob_effect:
  "openJob en tc i v = (r, v') \<Longrightarrow>
     (deletionMarks v', uploaded v', compactionBlocksVerificationFailed v')
       = (deletionMarks v, uploaded v, compactionBlocksVerificationFailed v)"
  by (auto simp: openJob_def emit_def Let_def split: option.splits)

lemma prepareAndCompact_effect:
  assumes "prepareAndCompact en c ctx job w = Compacted tc ids w1"
  shows "deletionMarks w1 = deletionMarks w" and "uploaded w1 = uploaded w"
    and "compactionBlocksVerificationFailed w1 = compactionBlocksVerificationFailed w"
    and "plan en (metasByMinTime job) = Inr tc" and "tc \<noteq> []"
proof -
  let ?g = "\<lambda>v. (deletionMarks v, uploaded v, compactionBlocksVerificationFailed v)"
  let ?w3 = "emit (EvLog LevelInfo ''compaction available and planned; downloading blocks'')
               (emit EvPlan (emit EvMkdirAll w))"
  obtain r4 w4 where dl: "ForEachJob (ctx Downloading) (length tc) (blockSyncConcurrency c)
               (downloadJob en tc) ?w3 = (r4, w4)" by (metis prod.exhaust)
  obtain r6 w6 where op: "ForEachJob (ctx Opening) (length tc) (blockOpenConcurrency c)
               (openJob en tc) (emit EvNewBucket w4) = (r6, w6)" by (metis prod.exhaust)
  have g4: "?g w4 = ?g ?w3"
    by (rule ForEachJob_preserves [OF _ dl]) (rule downloadJob_effect)
  have g6: "?g w6 = ?g (emit EvNewBucket w4)"
    by (rule ForEachJob_preserves [OF _ op]) (rule openJob_effect)
  have pl: "plan en (metasByMinTime job) = Inr tc \<and> tc \<noteq> []"
    using assms by (auto simp: prepareAndCompact_def Let_def split: option.splits sum.splits if_splits prod.splits)
  then show "plan en (metasByMinTime job) = Inr tc" "tc \<noteq> []" by simp_all
  have "?g w1 = ?g w6"
    using assms pl dl op
    by (auto simp: prepareAndCompact_def Let_def emit_def split: option.splits sum.splits if_splits prod.splits)
  with g4 g6 have "?g w1 = ?g w" by (simp add: emit_def)
  then show "deletionMarks w1 = deletionMarks w" "uploaded w1 = uploaded w"
    "compactionBlocksVerificationFailed w1 = compactionBlocksVerificationFailed w" by simp_all
qed


lemma deleteEmptySources_effect:
  "deleteEmptySources en tc w = w' \<Longrightarrow>
     uploaded w' = uploaded w
     \<and> compactionBlocksVerificationFailed w' = compactionBlocksVerificationFailed w
     \<and> deletionMarks w \<subseteq> deletionMarks w'
     \<and> deletionMarks w' \<subseteq> deletionMarks w \<union> {ULID m |m. m \<in> set tc \<and> NumSamples m = 0}
     \<and> (\<forall>m \<in> set tc. NumSamples m = 0 \<and> removeAll en (ULID m) = None
            \<and> markFails en (WithTimeout Background (5 * Minute)) (ULID m) = None
          \<longrightarrow> ULID m \<in> deletionMarks w')"
proof (induction tc arbitrary: w)
  case Nil
  then show ?case by simp
next
  case (Cons m rest)
  show ?case
  proof (cases "NumSamples m = 0")
    case False
    with Cons.prems have "deleteEmptySources en rest w = w'" by simp
    from Cons.IH [OF this] False show ?thesis by auto
  next
    case True
    obtain r1 w1 where db: "deleteBlock en (ULID m) w = (r1, w1)" by (metis prod.exhaust)
    note eff = deleteBlock_effect [OF db]
    let ?w2 = "case r1 of None \<Rightarrow> w1
      | Some err \<Rightarrow> emit (EvLog LevelWarn
          ''failed to mark for deletion an empty block found during compaction'') w1"
    have rec: "deleteEmptySources en rest ?w2 = w'"
      using Cons.prems True db by (simp split: option.splits)
    have w2: "uploaded ?w2 = uploaded w"
      "compactionBlocksVerificationFailed ?w2 = compactionBlocksVerificationFailed w"
      "deletionMarks ?w2 = (if r1 = None then insert (ULID m) (deletionMarks w) else deletionMarks w)"
      using eff(1-3) by (auto simp: emit_def split: option.splits)
    from Cons.IH [OF rec] w2 eff(4) True show ?thesis by (auto split: if_splits)
  qed
qed

lemma convertFrom_ids: "map ulid_of (convertFrom ix ids) = nonEmpty ids"
  by (induction ids arbitrary: ix) (simp_all add: nonEmpty_def)

lemma hasNonZeroULIDs_nonEmpty: "hasNonZeroULIDs ids \<longleftrightarrow> nonEmpty ids \<noteq> []"
  by (induction ids) (simp_all add: nonEmpty_def)

lemma verifyStage_effect:
  "localDirs (verifyStage tc ids w) = localDirs w"
  "deletionMarks (verifyStage tc ids w) = deletionMarks w"
  "uploaded (verifyStage tc ids w) = uploaded w"
  "compactionBlocksVerificationFailed (verifyStage tc ids w) =
     (if verifyCompactedBlocksTimeRanges (localDirs w) ids
           (UnixMilli (minTime tc)) (UnixMilli (maxTime tc)) = None
      then compactionBlocksVerificationFailed w
      else compactionBlocksVerificationFailed w + 1)"
  by (auto simp: verifyStage_def emit_def split: option.splits)

lemma removeTombstones_effect:
  assumes "removeTombstones en bid v = (r, v')"
  shows "deletionMarks v' = deletionMarks v \<and> uploaded v' = uploaded v
     \<and> compactionBlocksVerificationFailed v' = compactionBlocksVerificationFailed v
     \<and> (r = None \<longleftrightarrow> hasTombstones (localDirs v) bid \<and> removeFile en bid = None)
     \<and> (\<forall>b. b \<noteq> bid \<longrightarrow> localDirs v' b = localDirs v b)
     \<and> (\<forall>b. hasTombstones (localDirs v') b \<longrightarrow> hasTombstones (localDirs v) b)"
proof (cases "localDirs v bid")
  case None
  with assms show ?thesis
    by (auto simp: removeTombstones_def emit_def hasTombstones_def)
next
  case dir: (Some d)
  show ?thesis
  proof (cases "tombstones d")
    case False
    with assms dir show ?thesis
      by (auto simp: removeTombstones_def emit_def hasTombstones_def)
  next
    case True
    show ?thesis
    proof (cases "removeFile en bid")
      case None
      with assms dir True show ?thesis
        by (auto simp: removeTombstones_def emit_def hasTombstones_def split: if_splits)
    next
      case (Some err)
      with assms dir True have "r = Some err" "v' = emit (EvRemoveTombstones bid) v"
        by (simp_all add: removeTombstones_def emit_def)
      with Some show ?thesis by (simp add: emit_def)
    qed
  qed
qed

lemma uploadJob_effect:
  assumes "uploadJob en bs i v = (r, v')"
  shows "deletionMarks v' = deletionMarks v"
    and "compactionBlocksVerificationFailed v' = compactionBlocksVerificationFailed v"
    and "uploaded v \<subseteq> uploaded v'"
    and "\<forall>b. hasTombstones (localDirs v') b \<longrightarrow> hasTombstones (localDirs v) b"
    and "\<forall>b. b \<noteq> ulid_of (bs ! i) \<longrightarrow> localDirs v' b = localDirs v b"
    and "r = None \<Longrightarrow> hasTombstones (localDirs v) (ulid_of (bs ! i))
           \<and> ulid_of (bs ! i) \<in> uploaded v'"
    and "r = None \<longleftrightarrow> readable (localDirs v) (ulid_of (bs ! i))
           \<and> hasTombstones (localDirs v) (ulid_of (bs ! i))
           \<and> removeFile en (ulid_of (bs ! i)) = None
           \<and> validate en (ulid_of (bs ! i)) = None \<and> upload en (ulid_of (bs ! i)) = None"
proof -
  let ?bid = "ulid_of (bs ! i)"
  obtain r1 v1 where rt: "removeTombstones en ?bid v = (r1, v1)" by (metis prod.exhaust)
  note eff = removeTombstones_effect [OF rt]
  have res: "(r, v') =
      (case ReadMetaFromDir (localDirs v) ?bid of
         Inl err \<Rightarrow> (Some (WrapBlock err ''failed to read meta the block dir %s'' ?bid), v)
       | Inr newMeta \<Rightarrow>
           (case r1 of
              Some err \<Rightarrow> (Some (Wrap err ''remove tombstones''), v1)
            | None \<Rightarrow>
                (case validate en ?bid of
                   Some err \<Rightarrow> (Some (WrapBlock err ''invalid result block %s'' ?bid),
                                  emit (EvValidateLocalBlock ?bid) v1)
                 | None \<Rightarrow>
                     (case upload en ?bid of
                        Some err \<Rightarrow> (Some (WrapBlock err ''upload of %s failed'' ?bid),
                                       emit (EvUpload ?bid) (emit (EvValidateLocalBlock ?bid) v1))
                      | None \<Rightarrow>
                          (None, emit (EvLog LevelInfo ''uploaded block'')
                             ((emit (EvUpload ?bid) (emit (EvValidateLocalBlock ?bid) v1))
                                \<lparr>uploaded := insert ?bid
                                   (uploaded (emit (EvUpload ?bid) (emit (EvValidateLocalBlock ?bid) v1)))\<rparr>))))))"
    using assms rt by (simp add: uploadJob_def Let_def split: sum.splits option.splits)
  show "deletionMarks v' = deletionMarks v"
    using res eff by (auto simp: emit_def split: sum.splits option.splits)
  show "compactionBlocksVerificationFailed v' = compactionBlocksVerificationFailed v"
    using res eff by (auto simp: emit_def split: sum.splits option.splits)
  show "uploaded v \<subseteq> uploaded v'"
    using res eff by (auto simp: emit_def split: sum.splits option.splits)
  show "\<forall>b. hasTombstones (localDirs v') b \<longrightarrow> hasTombstones (localDirs v) b"
    using res eff by (auto simp: emit_def split: sum.splits option.splits)
  show "\<forall>b. b \<noteq> ?bid \<longrightarrow> localDirs v' b = localDirs v b"
    using res eff by (auto simp: emit_def split: sum.splits option.splits)
  show "r = None \<Longrightarrow> hasTombstones (localDirs v) ?bid \<and> ?bid \<in> uploaded v'"
    using res eff by (auto simp: emit_def split: sum.splits option.splits)
  show "r = None \<longleftrightarrow> readable (localDirs v) ?bid \<and> hasTombstones (localDirs v) ?bid
           \<and> removeFile en ?bid = None
           \<and> validate en ?bid = None \<and> upload en ?bid = None"
    using res eff by (auto simp: emit_def readable_def split: sum.splits option.splits)
qed

lemma upload_success_needs_tombstones:
  "forEachWorker ctxErr jobs (uploadJob en bs) idx w = (None, w') \<Longrightarrow>
     (\<forall>i. idx \<le> i \<and> i < jobs \<longrightarrow>
        hasTombstones (localDirs w) (ulid_of (bs ! i))
        \<and> removeFile en (ulid_of (bs ! i)) = None
        \<and> ulid_of (bs ! i) \<in> uploaded w')
     \<and> uploaded w \<subseteq> uploaded w'"
proof (induction ctxErr jobs "uploadJob en bs" idx w rule: forEachWorker.induct)
  case (1 ctxErr jobs idx w)
  note run = "1.prems"
  show ?case
  proof (cases "ctxErr idx")
    case True
    with run show ?thesis by (simp add: forEachWorker_cancelled)
  next
    case nc: False
    show ?thesis
    proof (cases "jobs \<le> idx")
      case True
      with run nc show ?thesis by (auto simp: forEachWorker_finished)
    next
      case False
      then have lt: "idx < jobs" by simp
      obtain r1 w1 where f: "uploadJob en bs idx w = (r1, w1)" by (metis prod.exhaust)
      from run nc lt f have r1: "r1 = None"
        by (cases r1) (simp_all add: forEachWorker_step)
      with run nc lt f have rec: "forEachWorker ctxErr jobs (uploadJob en bs) (Suc idx) w1 = (None, w')"
        by (simp add: forEachWorker_step)
      note ih = "1.hyps" [OF nc False f [symmetric] r1 rec]
      note eff = uploadJob_effect [OF f]
      have here: "hasTombstones (localDirs w) (ulid_of (bs ! idx))" "ulid_of (bs ! idx) \<in> uploaded w1"
        using eff(6) r1 by simp_all
      have rm: "removeFile en (ulid_of (bs ! idx)) = None"
        using eff(7) r1 by simp
      show ?thesis
      proof (intro conjI allI impI)
        fix i assume i: "idx \<le> i \<and> i < jobs"
        show "hasTombstones (localDirs w) (ulid_of (bs ! i))"
        proof (cases "i = idx")
          case True with here show ?thesis by simp
        next
          case False
          with i have "Suc idx \<le> i \<and> i < jobs" by simp
          with ih have "hasTombstones (localDirs w1) (ulid_of (bs ! i))" by blast
          with eff(4) show ?thesis by blast
        qed
        show "removeFile en (ulid_of (bs ! i)) = None"
        proof (cases "i = idx")
          case True with rm show ?thesis by simp
        next
          case False
          with i have "Suc idx \<le> i \<and> i < jobs" by simp
          with ih show ?thesis by blast
        qed
        show "ulid_of (bs ! i) \<in> uploaded w'"
        proof (cases "i = idx")
          case True with here ih show ?thesis by blast
        next
          case False
          with i have "Suc idx \<le> i \<and> i < jobs" by simp
          with ih show ?thesis by blast
        qed
      next
        show "uploaded w \<subseteq> uploaded w'" using ih eff(3) by blast
      qed
    qed
  qed
qed




lemma markSources_effect:
  "markSources en tc w = (r, w') \<Longrightarrow>
     uploaded w' = uploaded w \<and> deletionMarks w \<subseteq> deletionMarks w'"
proof (induction tc arbitrary: w)
  case Nil
  then show ?case by simp
next
  case (Cons m rest)
  obtain r1 w1 where db: "deleteBlock en (ULID m) w = (r1, w1)" by (metis prod.exhaust)
  note eff = deleteBlock_effect [OF db]
  show ?case
  proof (cases r1)
    case None
    with Cons.prems db have "markSources en rest w1 = (r, w')" by simp
    from Cons.IH [OF this] eff(1,3) None show ?thesis by auto
  next
    case (Some err)
    with Cons.prems db have "w' = w1" by simp
    with eff(1,3) Some show ?thesis by auto
  qed
qed

lemmas run_simps =
  runCompactionJob_def runCompactionJobBody_def prepareAndCompact_def uploadAndMark_def
  handleEmptyResult_def verifyStage_def jobCleanup_def ForEachJob_def downloadJob_def openJob_def
  uploadJob_def removeTombstones_def deleteBlock_def MarkForDeletion_def emit_def
  convertCompactionResultToForEachJobs_def verifyCompactedBlocksTimeRanges_def
  forEachWorker_cancelled forEachWorker_finished forEachWorker_step
  exEnv_def exWorld_def exJob_def exCompactor_def exMeta_def exDir_def
  ReadMetaFromDir_def zeroULID_def word_sless_alt


text \<open>C7: when the planner returns no block and no error, the job returns
  \<open>(false, nil, nil)\<close>; besides creating the work directory and asking the planner it
  only logs the outcome and removes the work directory again: no download, no
  compaction, no upload and no deletion marker.\<close>

theorem C7_empty_plan_stops:
  assumes "mkdirAll en = None" and "plan en (metasByMinTime job) = Inr []"
  shows "fst (runCompactionJob en c ctx job w) = (False, [], None)
     \<and> newEvents w (snd (runCompactionJob en c ctx job w))
         = [EvMkdirAll, EvPlan, EvLog LevelInfo ''compaction job succeeded'', EvRemoveSubDir]
           @ (case removeSubDir en of
                None \<Rightarrow> []
              | Some err \<Rightarrow> [EvLog LevelError ''failed to remove compaction group work directory''])
     \<and> deletionMarks (snd (runCompactionJob en c ctx job w)) = deletionMarks w
     \<and> uploaded (snd (runCompactionJob en c ctx job w)) = uploaded w"
  using assms
  by (simp add: runCompactionJob_def runCompactionJobBody_def prepareAndCompact_def
      jobCleanup_def emit_def newEvents_def split: option.splits)

theorem C7_empty_plan_stops_witness:
  "fst (runCompactionJob (exEnv [] Map.empty) exCompactor (\<lambda>s i. False) (exJob []) exWorld)
     = (False, [], None)
   \<and> newEvents exWorld
        (snd (runCompactionJob (exEnv [] Map.empty) exCompactor (\<lambda>s i. False) (exJob []) exWorld))
     = [EvMkdirAll, EvPlan, EvLog LevelInfo ''compaction job succeeded'', EvRemoveSubDir]"
  using C7_empty_plan_stops [of "exEnv [] Map.empty" "exJob []" exCompactor "\<lambda>s i. False" exWorld]
  by (simp add: exEnv_def exJob_def)

text \<open>C3: when the compaction succeeds and no output block has a non-zero ULID, the
  job returns \<open>(true, nil, nil)\<close> and uploads nothing. Each planned block without
  samples is marked for deletion when its local directory can be removed and the marker
  can be written; a failure there changes nothing in what the job returns. No other
  block is marked.\<close>

theorem C3_empty_result:
  assumes "prepareAndCompact en c ctx job w = Compacted toCompact compIDs w1"
    and "\<not> hasNonZeroULIDs compIDs"
  shows "fst (runCompactionJob en c ctx job w) = (True, [], None)
     \<and> uploaded (snd (runCompactionJob en c ctx job w)) = uploaded w
     \<and> (\<forall>m \<in> set toCompact. NumSamples m = 0 \<and> removeAll en (ULID m) = None
            \<and> markFails en (WithTimeout Background (5 * Minute)) (ULID m) = None
          \<longrightarrow> ULID m \<in> deletionMarks (snd (runCompactionJob en c ctx job w)))
     \<and> deletionMarks (snd (runCompactionJob en c ctx job w))
         \<subseteq> deletionMarks w \<union> {ULID m |m. m \<in> set toCompact \<and> NumSamples m = 0}"
proof -
  let ?w2 = "emit (EvLog LevelInfo
                 ''compacted block would have no samples, deleting source blocks'') w1"
  let ?w3 = "deleteEmptySources en toCompact ?w2"
  have run: "runCompactionJob en c ctx job w = ((True, [], None), jobCleanup en None ?w3)"
    using assms by (simp add: runCompactionJob_def runCompactionJobBody_def handleEmptyResult_def)
  note p = prepareAndCompact_effect [OF assms(1)]
  have "uploaded ?w2 = uploaded w" "deletionMarks ?w2 = deletionMarks w"
    using p by (simp_all add: emit_def)
  with deleteEmptySources_effect [of en toCompact ?w2 ?w3] run show ?thesis
    by (simp add: jobCleanup_effect)
qed

theorem C3_empty_result_witness:
  "fst (runCompactionJob envEmptyOutput exCompactor (\<lambda>s i. False)
          (exJob [exMeta 1 0 10 0, exMeta 3 0 10 4]) exWorld) = (True, [], None)
   \<and> uploaded (snd (runCompactionJob envEmptyOutput exCompactor (\<lambda>s i. False)
          (exJob [exMeta 1 0 10 0, exMeta 3 0 10 4]) exWorld)) = {}
   \<and> 1 \<in> deletionMarks (snd (runCompactionJob envEmptyOutput exCompactor (\<lambda>s i. False)
          (exJob [exMeta 1 0 10 0, exMeta 3 0 10 4]) exWorld))
   \<and> 3 \<notin> deletionMarks (snd (runCompactionJob envEmptyOutput exCompactor (\<lambda>s i. False)
          (exJob [exMeta 1 0 10 0, exMeta 3 0 10 4]) exWorld))"
proof -
  have "\<exists>w1. prepareAndCompact envEmptyOutput exCompactor (\<lambda>s i. False)
          (exJob [exMeta 1 0 10 0, exMeta 3 0 10 4]) exWorld
        = Compacted [exMeta 1 0 10 0, exMeta 3 0 10 4] [0] w1"
    by (simp add: envEmptyOutput_def run_simps)
  then obtain w1 where prep: "prepareAndCompact envEmptyOutput exCompactor (\<lambda>s i. False)
          (exJob [exMeta 1 0 10 0, exMeta 3 0 10 4]) exWorld
        = Compacted [exMeta 1 0 10 0, exMeta 3 0 10 4] [0] w1" ..
  have nz: "\<not> hasNonZeroULIDs [0]" by (simp add: zeroULID_def)
  show ?thesis
    using C3_empty_result [OF prep nz]
    by (auto simp: envEmptyOutput_def exEnv_def exMeta_def exWorld_def)
qed

text \<open>C10: in a job that reached the upload stage with at least one worker, a non-empty
  output block whose \<open>tombstones\<close> file cannot be removed, because the directory has no
  such file or because \<open>os.Remove\<close> fails on it for another reason, makes the job fail,
  with no source block marked for deletion; so a job that returns no error had a
  \<open>tombstones\<close> file in the directory of every non-empty output block, has removed it
  without an error, and has uploaded each of these blocks.\<close>

theorem C10_tombstones_required:
  assumes prep: "prepareAndCompact en c ctx job w = Compacted toCompact compIDs w1"
    and nz: "hasNonZeroULIDs compIDs"
    and conc: "0 < blockSyncConcurrency c"
  shows "(snd (snd (fst (runCompactionJob en c ctx job w))) = None \<longrightarrow>
           (\<forall>bid \<in> set compIDs. bid \<noteq> zeroULID \<longrightarrow>
              hasTombstones (localDirs w1) bid
              \<and> removeFile en bid = None
              \<and> bid \<in> uploaded (snd (runCompactionJob en c ctx job w))))
       \<and> ((\<exists>bid \<in> set compIDs. bid \<noteq> zeroULID
              \<and> (\<not> hasTombstones (localDirs w1) bid \<or> removeFile en bid \<noteq> None)) \<longrightarrow>
           (\<exists>err. fst (runCompactionJob en c ctx job w) = (False, [], Some err))
           \<and> deletionMarks (snd (runCompactionJob en c ctx job w)) = deletionMarks w)"
proof -
  let ?bs = "convertCompactionResultToForEachJobs compIDs"
  let ?w2 = "verifyStage toCompact compIDs (emit (EvLog LevelInfo ''compacted blocks'') w1)"
  have ids: "map ulid_of ?bs = nonEmpty compIDs"
    by (simp add: convertCompactionResultToForEachJobs_def convertFrom_ids)
  then have len: "length ?bs = length (nonEmpty compIDs)" by (metis length_map)
  have ne: "length ?bs \<noteq> 0" using nz len by (simp add: hasNonZeroULIDs_nonEmpty)
  obtain r3 w3 where up: "forEachWorker (ctx Uploading) (length ?bs) (uploadJob en ?bs) 0 ?w2 = (r3, w3)"
    by (metis prod.exhaust)
  have fe: "ForEachJob (ctx Uploading) (length ?bs) (blockSyncConcurrency c) (uploadJob en ?bs) ?w2 = (r3, w3)"
    using up ne conc by (auto simp: ForEachJob_def min_def)
  have d2: "localDirs ?w2 = localDirs w1" "deletionMarks ?w2 = deletionMarks w"
    using prepareAndCompact_effect(1) [OF prep] by (simp_all add: verifyStage_effect emit_def)
  have d3: "deletionMarks w3 = deletionMarks ?w2"
    by (rule forEachWorker_preserves [OF _ up]) (rule uploadJob_effect(1))
  obtain r5 w5 where ms: "markSources en toCompact (emit (EvLog LevelInfo ''uploaded all blocks'') w3) = (r5, w5)"
    by (metis prod.exhaust)
  have body: "runCompactionJobBody en c ctx job w =
      (case r3 of
         Some err \<Rightarrow> ((False, [], Some err), w3)
       | None \<Rightarrow> (case r5 of Some err \<Rightarrow> ((False, [], Some err), w5)
                   | None \<Rightarrow> ((True, compIDs, None), w5)))"
    using prep nz fe ms
    by (simp add: runCompactionJobBody_def uploadAndMark_def Let_def split: option.splits)
  have idx: "\<And>bid. bid \<in> set compIDs \<Longrightarrow> bid \<noteq> zeroULID \<Longrightarrow>
      \<exists>i < length ?bs. ulid_of (?bs ! i) = bid"
  proof -
    fix bid assume "bid \<in> set compIDs" "bid \<noteq> zeroULID"
    then have "bid \<in> set (map ulid_of ?bs)" by (simp add: ids nonEmpty_def)
    then show "\<exists>i < length ?bs. ulid_of (?bs ! i) = bid"
      by (metis (no_types, lifting) in_set_conv_nth length_map nth_map)
  qed
  have success: "r3 = None \<Longrightarrow> \<forall>bid \<in> set compIDs. bid \<noteq> zeroULID \<longrightarrow>
      hasTombstones (localDirs w1) bid \<and> removeFile en bid = None \<and> bid \<in> uploaded w3"
  proof (intro ballI impI)
    fix bid assume r3: "r3 = None" and b: "bid \<in> set compIDs" "bid \<noteq> zeroULID"
    from idx [OF b] obtain i where i: "i < length ?bs" "ulid_of (?bs ! i) = bid" by blast
    from upload_success_needs_tombstones [OF up [unfolded r3]] i d2(1)
    show "hasTombstones (localDirs w1) bid \<and> removeFile en bid = None \<and> bid \<in> uploaded w3"
      by auto
  qed
  have part1: "snd (snd (fst (runCompactionJob en c ctx job w))) = None \<longrightarrow>
           (\<forall>bid \<in> set compIDs. bid \<noteq> zeroULID \<longrightarrow>
              hasTombstones (localDirs w1) bid
              \<and> removeFile en bid = None
              \<and> bid \<in> uploaded (snd (runCompactionJob en c ctx job w)))"
  proof
    assume ok: "snd (snd (fst (runCompactionJob en c ctx job w))) = None"
    then have r: "r3 = None" "r5 = None"
      using body by (auto simp: runCompactionJob_def split: option.splits)
    then have "snd (runCompactionJob en c ctx job w) = jobCleanup en None w5"
      using body by (simp add: runCompactionJob_def)
    moreover have "uploaded w5 = uploaded w3"
      using markSources_effect [OF ms] by (simp add: emit_def)
    ultimately show "\<forall>bid \<in> set compIDs. bid \<noteq> zeroULID \<longrightarrow>
              hasTombstones (localDirs w1) bid
              \<and> removeFile en bid = None
              \<and> bid \<in> uploaded (snd (runCompactionJob en c ctx job w))"
      using success [OF r(1)] by (simp add: jobCleanup_effect)
  qed
  have part2: "(\<exists>bid \<in> set compIDs. bid \<noteq> zeroULID
              \<and> (\<not> hasTombstones (localDirs w1) bid \<or> removeFile en bid \<noteq> None)) \<longrightarrow>
           (\<exists>err. fst (runCompactionJob en c ctx job w) = (False, [], Some err))
           \<and> deletionMarks (snd (runCompactionJob en c ctx job w)) = deletionMarks w"
  proof
    assume "\<exists>bid \<in> set compIDs. bid \<noteq> zeroULID
              \<and> (\<not> hasTombstones (localDirs w1) bid \<or> removeFile en bid \<noteq> None)"
    with success obtain err where "r3 = Some err" by (cases r3) auto
    with body d3 d2(2) show "(\<exists>err. fst (runCompactionJob en c ctx job w) = (False, [], Some err))
           \<and> deletionMarks (snd (runCompactionJob en c ctx job w)) = deletionMarks w"
      by (simp add: runCompactionJob_def jobCleanup_effect)
  qed
  from part1 part2 show ?thesis by blast
qed

theorem C10_tombstones_required_witness:
  "\<not> hasTombstones [2 \<mapsto> \<lparr>meta_json = Some (exMeta 2 0 10 5), tombstones = False\<rparr>] 2
   \<and> (\<exists>err. fst (runCompactionJob envNoTombstones exCompactor (\<lambda>s i. False)
                  (exJob [exMeta 1 0 10 5]) exWorld) = (False, [], Some err))
   \<and> deletionMarks (snd (runCompactionJob envNoTombstones exCompactor (\<lambda>s i. False)
                  (exJob [exMeta 1 0 10 5]) exWorld)) = {}
   \<and> hasTombstones [2 \<mapsto> exDir (exMeta 2 0 10 5)] 2
   \<and> removeFile envRemoveRefused 2 = Some (External ''remove tombstones: permission denied'')
   \<and> (\<exists>err. fst (runCompactionJob envRemoveRefused exCompactor (\<lambda>s i. False)
                  (exJob [exMeta 1 0 10 5]) exWorld) = (False, [], Some err))
   \<and> deletionMarks (snd (runCompactionJob envRemoveRefused exCompactor (\<lambda>s i. False)
                  (exJob [exMeta 1 0 10 5]) exWorld)) = {}"
proof -
  have nz: "hasNonZeroULIDs [2]" by (simp add: zeroULID_def)
  have conc: "0 < blockSyncConcurrency exCompactor" by (simp add: exCompactor_def)
  have "\<exists>w1. prepareAndCompact envNoTombstones exCompactor (\<lambda>s i. False)
          (exJob [exMeta 1 0 10 5]) exWorld = Compacted [exMeta 1 0 10 5] [2] w1
        \<and> \<not> hasTombstones (localDirs w1) 2"
    by (simp add: envNoTombstones_def run_simps hasTombstones_def)
  then obtain w1 where prep: "prepareAndCompact envNoTombstones exCompactor (\<lambda>s i. False)
          (exJob [exMeta 1 0 10 5]) exWorld = Compacted [exMeta 1 0 10 5] [2] w1"
    and nt: "\<not> hasTombstones (localDirs w1) 2" by blast
  have "\<exists>bid \<in> set [2]. bid \<noteq> zeroULID
      \<and> (\<not> hasTombstones (localDirs w1) bid \<or> removeFile envNoTombstones bid \<noteq> None)"
    using nt by (simp add: zeroULID_def)
  with C10_tombstones_required [OF prep nz conc] have missing:
    "(\<exists>err. fst (runCompactionJob envNoTombstones exCompactor (\<lambda>s i. False)
                  (exJob [exMeta 1 0 10 5]) exWorld) = (False, [], Some err))
     \<and> deletionMarks (snd (runCompactionJob envNoTombstones exCompactor (\<lambda>s i. False)
                  (exJob [exMeta 1 0 10 5]) exWorld)) = {}"
    by (simp add: exWorld_def)
  have "\<exists>w2. prepareAndCompact envRemoveRefused exCompactor (\<lambda>s i. False)
          (exJob [exMeta 1 0 10 5]) exWorld = Compacted [exMeta 1 0 10 5] [2] w2"
    by (simp add: envRemoveRefused_def run_simps)
  then obtain w2 where prep2: "prepareAndCompact envRemoveRefused exCompactor (\<lambda>s i. False)
          (exJob [exMeta 1 0 10 5]) exWorld = Compacted [exMeta 1 0 10 5] [2] w2" ..
  have rf: "removeFile envRemoveRefused 2 = Some (External ''remove tombstones: permission denied'')"
    by (simp add: envRemoveRefused_def exEnv_def)
  then have "\<exists>bid \<in> set [2]. bid \<noteq> zeroULID
      \<and> (\<not> hasTombstones (localDirs w2) bid \<or> removeFile envRemoveRefused bid \<noteq> None)"
    by (simp add: zeroULID_def)
  with C10_tombstones_required [OF prep2 nz conc] have refused:
    "(\<exists>err. fst (runCompactionJob envRemoveRefused exCompactor (\<lambda>s i. False)
                  (exJob [exMeta 1 0 10 5]) exWorld) = (False, [], Some err))
     \<and> deletionMarks (snd (runCompactionJob envRemoveRefused exCompactor (\<lambda>s i. False)
                  (exJob [exMeta 1 0 10 5]) exWorld)) = {}"
    by (simp add: exWorld_def)
  have dirs: "\<not> hasTombstones [2 \<mapsto> \<lparr>meta_json = Some (exMeta 2 0 10 5), tombstones = False\<rparr>] 2"
    "hasTombstones [2 \<mapsto> exDir (exMeta 2 0 10 5)] 2"
    by (simp_all add: hasTombstones_def exDir_def)
  from missing refused rf dirs show ?thesis by blast
qed

section \<open>A violation of the source bounds in runCompactionJob\<close>











lemma computed_bound_wraps:
  "sint (UnixMilli (minTime [exMeta 1 9223372036855 9223372036855 5])) = - 9223372036855"
  by (simp add: UnixMilli_def minTime_def time_Unix_def Millisecond_def exMeta_def
      signed_divide_int_def word_sless_alt)




end
